theory Spec2Isabelle
  imports Main "HOL-Library.Sublist"
begin

section \<open>Python string primitives\<close>

text \<open>
  Strings are lists of ASCII characters. Each function below models the Python \<open>str\<close>
  method of the same name on ASCII text: \<open>lower\<close>, \<open>strip\<close>, \<open>in\<close>, \<open>join\<close>,
  \<open>split\<close> (without arguments) and \<open>title\<close>; \<open>s.startswith(p)\<close> is \<open>prefix p s\<close>.
\<close>

definition py_isupper :: "char \<Rightarrow> bool" where
  "py_isupper c = (let n = (of_char c :: nat) in 65 \<le> n \<and> n \<le> 90)"

definition py_islower :: "char \<Rightarrow> bool" where
  "py_islower c = (let n = (of_char c :: nat) in 97 \<le> n \<and> n \<le> 122)"

definition lower_char :: "char \<Rightarrow> char" where
  "lower_char c = (if py_isupper c then char_of ((of_char c :: nat) + 32) else c)"

definition upper_char :: "char \<Rightarrow> char" where
  "upper_char c = (if py_islower c then char_of ((of_char c :: nat) - 32) else c)"

definition py_lower :: "string \<Rightarrow> string" where
  "py_lower s = map lower_char s"

text \<open>The ASCII characters for which \<open>str.isspace\<close> holds: tab, line feed, vertical tab,
  form feed, carriage return, the four separators 28..31, and the space.\<close>

definition py_isspace :: "char \<Rightarrow> bool" where
  "py_isspace c = (let n = (of_char c :: nat) in (9 \<le> n \<and> n \<le> 13) \<or> (28 \<le> n \<and> n \<le> 32))"

definition py_lstrip :: "string \<Rightarrow> string" where
  "py_lstrip s = dropWhile py_isspace s"

definition py_rstrip :: "string \<Rightarrow> string" where
  "py_rstrip s = rev (dropWhile py_isspace (rev s))"

definition py_strip :: "string \<Rightarrow> string" where
  "py_strip s = py_rstrip (py_lstrip s)"

text \<open>\<open>k in s\<close> on strings: \<open>k\<close> occurs as a contiguous substring of \<open>s\<close>.\<close>

fun py_in :: "string \<Rightarrow> string \<Rightarrow> bool" where
  "py_in k [] = (k = [])"
| "py_in k (c # cs) = (prefix k (c # cs) \<or> py_in k cs)"

fun py_join :: "string \<Rightarrow> string list \<Rightarrow> string" where
  "py_join sep [] = []"
| "py_join sep [x] = x"
| "py_join sep (x # y # ys) = x @ sep @ py_join sep (y # ys)"

text \<open>\<open>s.split()\<close>: the maximal runs of non-whitespace characters.\<close>

fun split_ws :: "string \<Rightarrow> string \<Rightarrow> string list" where
  "split_ws cur [] = (if cur = [] then [] else [cur])"
| "split_ws cur (c # cs) =
     (if py_isspace c then (if cur = [] then split_ws [] cs else cur # split_ws [] cs)
      else split_ws (cur @ [c]) cs)"

definition py_split :: "string \<Rightarrow> string list" where
  "py_split s = split_ws [] s"

text \<open>\<open>s.title()\<close>: a letter that follows a letter is lowercased, any other letter is
  uppercased; the flag records whether the previous character was a letter.\<close>

fun title_from :: "bool \<Rightarrow> string \<Rightarrow> string" where
  "title_from prev [] = []"
| "title_from prev (c # cs) =
     (if py_islower c then (if prev then c else upper_char c) # title_from True cs
      else if py_isupper c then (if prev then lower_char c else c) # title_from True cs
      else c # title_from False cs)"

definition py_title :: "string \<Rightarrow> string" where
  "py_title s = title_from False s"

text \<open>\<open>xs[:n]\<close> for a Python integer \<open>n\<close>: a negative \<open>n\<close> counts from the end.\<close>

definition py_slice_to :: "int \<Rightarrow> 'a list \<Rightarrow> 'a list" where
  "py_slice_to n xs = (if 0 \<le> n then take (nat n) xs else take (length xs - nat (- n)) xs)"

text \<open>\<open>d.get(k, default)\<close> on a dictionary written as an association list.\<close>

definition dict_get :: "('k \<times> 'v) list \<Rightarrow> 'k \<Rightarrow> 'v \<Rightarrow> 'v" where
  "dict_get d k dflt = (case map_of d k of Some v \<Rightarrow> v | None \<Rightarrow> dflt)"

section \<open>The course catalog and the matching engine (\<open>rag_system.py\<close>)\<close>

text \<open>
  A course is a JSON object of the catalog. Every read of a text field in the source is
  \<open>course.get(field, '')\<close>, so an absent field is the empty string (the empty list for
  \<open>keywords\<close> and \<open>semesters\<close>); \<open>course['id']\<close> is read directly.
\<close>

record course =
  course_id :: string
  title :: string
  description :: string
  category :: string
  level :: string
  course_keywords :: "string list"
  credits :: nat
  prerequisites :: "string option"
  semesters :: "string list"

record user_profile =
  education_level :: string
  interests :: "string list"
  career_goal :: string
  preferred_categories :: "string list"
  additional_info :: string

definition level_map :: "(string \<times> string) list" where
  "level_map =
    [(''freshman'', ''1st year''), (''first year'', ''1st year''), (''1st year'', ''1st year''),
     (''sophomore'', ''2nd year''), (''second year'', ''2nd year''), (''2nd year'', ''2nd year''),
     (''junior'', ''3rd year''), (''third year'', ''3rd year''), (''3rd year'', ''3rd year''),
     (''senior'', ''4th year''), (''fourth year'', ''4th year''), (''4th year'', ''4th year''),
     (''graduate'', ''graduate''), (''grad'', ''graduate''), (''masters'', ''graduate''),
     (''phd'', ''graduate'')]"

definition search_courses_by_level :: "course list \<Rightarrow> string \<Rightarrow> course list" where
  "search_courses_by_level courses lvl =
     (let normalized_level = dict_get level_map (py_lower lvl) lvl
      in filter (\<lambda>c. py_lower (level c) = py_lower normalized_level) courses)"

definition interest_mapping :: "(string \<times> string list) list" where
  "interest_mapping =
    [(''AI/ML'', [''artificial intelligence'', ''machine learning'', ''data science'', ''computer science'']),
     (''Web Dev'', [''web'', ''programming'', ''computer science'', ''development'']),
     (''Security'', [''security'', ''computer science'', ''networking'']),
     (''Data Science'', [''data'', ''statistics'', ''mathematics'', ''computer science'', ''analysis'']),
     (''Mobile Dev'', [''mobile'', ''programming'', ''computer science'', ''development'']),
     (''Game Dev'', [''game'', ''programming'', ''computer science'', ''development'']),
     (''Entrepreneurship'', [''business'', ''entrepreneurship'', ''management'']),
     (''Management'', [''business'', ''management'', ''leadership'']),
     (''Business Strategy'', [''business'', ''strategy'', ''management'']),
     (''Finance/Accounting'', [''finance'', ''accounting'', ''business'', ''economics'']),
     (''Biology/Biotech'', [''biology'', ''science'', ''biotechnology'']),
     (''Chemistry'', [''chemistry'', ''science'']),
     (''Mathematics'', [''mathematics'', ''statistics'', ''calculus'']),
     (''Physics'', [''physics'', ''science'']),
     (''Nursing'', [''nursing'', ''healthcare'', ''medical'']),
     (''Healthcare'', [''healthcare'', ''medical'', ''health'']),
     (''Psychology'', [''psychology'', ''social'', ''behavior'']),
     (''Communication'', [''communication'', ''media'', ''writing'']),
     (''Education'', [''education'', ''teaching'', ''learning'']),
     (''History/Humanities'', [''history'', ''humanities'', ''literature'']),
     (''UI/UX Design'', [''design'', ''art'', ''creative'', ''computer'']),
     (''Music'', [''music'', ''performance'', ''creative'']),
     (''Visual Arts'', [''art'', ''visual'', ''creative'', ''design'']),
     (''Theatre Arts'', [''theatre'', ''performance'', ''art'', ''creative''])]"

text \<open>The expansion loop: each keyword contributes its lowercase form, followed by its
  table entry when the keyword, as given, is a key of \<open>interest_mapping\<close>.\<close>

fun expand_keywords :: "string list \<Rightarrow> string list" where
  "expand_keywords [] = []"
| "expand_keywords (keyword # rest) =
     (py_lower keyword #
        (case map_of interest_mapping keyword of Some extra \<Rightarrow> extra | None \<Rightarrow> []))
     @ expand_keywords rest"

definition search_text :: "course \<Rightarrow> string" where
  "search_text c =
     py_join '' '' [py_lower (title c), py_lower (description c), py_lower (category c),
                    py_lower (py_join '' '' (course_keywords c))]"

text \<open>The inner loop over the expanded keywords, threading the running score.\<close>

fun score_loop :: "course \<Rightarrow> string list \<Rightarrow> int \<Rightarrow> int" where
  "score_loop c [] score = score"
| "score_loop c (keyword # rest) score =
     (let kw = py_strip (py_lower keyword) in
      if py_in kw (search_text c) then
        (if py_in kw (py_lower (title c)) then score_loop c rest (score + 3)
         else if py_in kw (py_lower (description c)) then score_loop c rest (score + 2)
         else score_loop c rest (score + 1))
      else score_loop c rest score)"

text \<open>The outer loop over the catalog, collecting the pairs \<open>(course, score)\<close> with a
  positive score.\<close>

fun score_courses :: "string list \<Rightarrow> course list \<Rightarrow> (course \<times> int) list" where
  "score_courses expanded [] = []"
| "score_courses expanded (c # cs) =
     (let score = score_loop c expanded 0 in
      if score > 0 then (c, score) # score_courses expanded cs
      else score_courses expanded cs)"

text \<open>\<open>list.sort(key=..., reverse=True)\<close>: the list is reversed, sorted stably in
  ascending key order, and reversed again.\<close>

definition sort_reverse :: "('a \<Rightarrow> int) \<Rightarrow> 'a list \<Rightarrow> 'a list" where
  "sort_reverse f xs = rev (sort_key f (rev xs))"

definition search_courses_by_keywords :: "course list \<Rightarrow> string list \<Rightarrow> int \<Rightarrow> course list" where
  "search_courses_by_keywords courses kws max_results =
     (let expanded_keywords = expand_keywords kws;
          scored_courses = sort_reverse snd (score_courses expanded_keywords courses)
      in map fst (py_slice_to max_results scored_courses))"

definition category_map :: "(string \<times> string list) list" where
  "category_map =
    [(''business'', [''Business'', ''MBA'']),
     (''science'', [''Natural Sciences'', ''Computer Science'']),
     (''computer science'', [''Computer Science'']),
     (''cs'', [''Computer Science'']),
     (''programming'', [''Computer Science'']),
     (''health'', [''Health Sciences'', ''Nursing'']),
     (''nursing'', [''Nursing'']),
     (''medical'', [''Health Sciences'']),
     (''medicine'', [''Health Sciences'']),
     (''education'', [''Education'']),
     (''teaching'', [''Education'']),
     (''music'', [''Music'']),
     (''art'', [''Fine Arts'']),
     (''english'', [''Humanities'']),
     (''literature'', [''Humanities'']),
     (''history'', [''Humanities'']),
     (''psychology'', [''Social Sciences'']),
     (''math'', [''Mathematics'']),
     (''mathematics'', [''Mathematics'']),
     (''religion'', [''Religion'']),
     (''communications'', [''Communications''])]"

definition search_courses_by_category :: "course list \<Rightarrow> string \<Rightarrow> course list" where
  "search_courses_by_category courses cat =
     (let target_categories = dict_get category_map (py_lower cat) [cat]
      in filter (\<lambda>c. list_ex (\<lambda>t. py_in (py_lower t) (py_lower (category c))) target_categories)
           courses)"

definition career_keywords :: "(string \<times> string list) list" where
  "career_keywords =
    [(''doctor'', [''biology'', ''chemistry'', ''anatomy'', ''physiology'', ''pre-med'', ''medical'', ''health'']),
     (''physician'', [''biology'', ''chemistry'', ''anatomy'', ''physiology'', ''pre-med'', ''medical'', ''health'']),
     (''nurse'', [''nursing'', ''anatomy'', ''physiology'', ''healthcare'', ''patient care'', ''medical'']),
     (''teacher'', [''education'', ''psychology'', ''classroom management'', ''learning'', ''teaching'']),
     (''business'', [''business'', ''management'', ''marketing'', ''finance'', ''entrepreneurship'']),
     (''entrepreneur'', [''business'', ''management'', ''marketing'', ''finance'', ''entrepreneurship'']),
     (''software engineer'', [''computer science'', ''programming'', ''algorithms'', ''data structures'']),
     (''programmer'', [''computer science'', ''programming'', ''algorithms'', ''data structures'']),
     (''data scientist'', [''statistics'', ''computer science'', ''mathematics'', ''data analysis'']),
     (''musician'', [''music'', ''performance'', ''theory'', ''composition'']),
     (''artist'', [''art'', ''studio'', ''creative'', ''visual arts'']),
     (''lawyer'', [''english'', ''communication'', ''history'', ''critical thinking'']),
     (''researcher'', [''research methods'', ''statistics'', ''methodology'', ''analysis'']),
     (''counselor'', [''psychology'', ''developmental'', ''behavior'', ''social'']),
     (''therapist'', [''psychology'', ''developmental'', ''behavior'', ''social''])]"

text \<open>The loop over the career table, in the table's order, extending the keyword list.\<close>

fun career_loop :: "string \<Rightarrow> (string \<times> string list) list \<Rightarrow> string list" where
  "career_loop goal [] = []"
| "career_loop goal ((goal_key, goal_keywords) # rest) =
     (if py_in (py_lower goal_key) (py_lower goal) then goal_keywords @ career_loop goal rest
      else career_loop goal rest)"

definition career_goal_keywords :: "string \<Rightarrow> string list" where
  "career_goal_keywords goal =
     (let kws = career_loop goal career_keywords
      in if kws = [] then py_split (py_lower goal) else kws)"

text \<open>The call passes no \<open>max_results\<close>, so the parameter takes its default, 10.\<close>

definition search_courses_by_career_goal :: "course list \<Rightarrow> string \<Rightarrow> course list" where
  "search_courses_by_career_goal courses goal =
     search_courses_by_keywords courses (career_goal_keywords goal) 10"

text \<open>The deduplicating walk over the concatenated passes: the state is the set of seen
  ids and the list of kept courses.\<close>

fun merge_loop :: "course list \<Rightarrow> course list \<Rightarrow> string set \<times> course list
    \<Rightarrow> string set \<times> course list" where
  "merge_loop level_courses [] st = st"
| "merge_loop level_courses (c # cs) (seen_ids, unique_courses) =
     (if course_id c \<notin> seen_ids \<and> c \<in> set level_courses
      then merge_loop level_courses cs (insert (course_id c) seen_ids, unique_courses @ [c])
      else merge_loop level_courses cs (seen_ids, unique_courses))"

text \<open>The backfill walk over the level-pass universe.\<close>

fun backfill_loop :: "course list \<Rightarrow> string set \<times> course list \<Rightarrow> string set \<times> course list" where
  "backfill_loop [] st = st"
| "backfill_loop (c # cs) (seen_ids, unique_courses) =
     (if course_id c \<notin> seen_ids \<and> length unique_courses < 12
      then backfill_loop cs (insert (course_id c) seen_ids, unique_courses @ [c])
      else backfill_loop cs (seen_ids, unique_courses))"

definition level_universe :: "course list \<Rightarrow> user_profile \<Rightarrow> course list" where
  "level_universe courses p =
     (if education_level p \<noteq> [] then search_courses_by_level courses (education_level p)
      else courses)"

definition interest_pass :: "course list \<Rightarrow> user_profile \<Rightarrow> course list" where
  "interest_pass courses p =
     (if interests p \<noteq> []
      then concat (map (\<lambda>interest. search_courses_by_keywords courses [interest] 5) (interests p))
      else level_universe courses p)"

definition career_pass :: "course list \<Rightarrow> user_profile \<Rightarrow> course list" where
  "career_pass courses p =
     (if career_goal p \<noteq> [] then search_courses_by_career_goal courses (career_goal p) else [])"

definition category_pass :: "course list \<Rightarrow> user_profile \<Rightarrow> course list" where
  "category_pass courses p =
     concat (map (search_courses_by_category courses) (preferred_categories p))"

definition get_recommended_courses :: "course list \<Rightarrow> user_profile \<Rightarrow> course list" where
  "get_recommended_courses courses p =
     (let level_courses = level_universe courses p;
          all_courses = career_pass courses p @ interest_pass courses p @ category_pass courses p;
          merged = merge_loop level_courses all_courses ({}, []);
          filled = (if length (snd merged) < 8 then backfill_loop level_courses merged else merged)
      in take 12 (snd filled))"

section \<open>The profile normalizer, validator and summarizer (\<open>user_input.py\<close>)\<close>

text \<open>
  The raw \<open>interests\<close> value is either a string, a list (of strings, for which
  \<open>str\<close> is the identity) or a value of another type. A raw field that is read with
  \<open>raw_input.get(field, default)\<close> and is absent has its default: the empty string, and
  the empty list for \<open>interests\<close>.
\<close>

datatype interests_input = InterestsStr string | InterestsList "string list" | InterestsOther

record raw_input =
  raw_education_level :: string
  raw_interests :: interests_input
  raw_career_goal :: string
  raw_additional_info :: string

definition processor_level_map :: "(string \<times> string) list" where
  "processor_level_map =
    [(''freshman'', ''1st year''), (''first year'', ''1st year''), (''1'', ''1st year''),
     (''1st'', ''1st year''),
     (''sophomore'', ''2nd year''), (''second year'', ''2nd year''), (''2'', ''2nd year''),
     (''2nd'', ''2nd year''),
     (''junior'', ''3rd year''), (''third year'', ''3rd year''), (''3'', ''3rd year''),
     (''3rd'', ''3rd year''),
     (''senior'', ''4th year''), (''fourth year'', ''4th year''), (''4'', ''4th year''),
     (''4th'', ''4th year''),
     (''graduate'', ''graduate''), (''grad'', ''graduate''), (''masters'', ''graduate''),
     (''master's'', ''graduate''), (''phd'', ''graduate''), (''doctoral'', ''graduate'')]"

definition process_education_level :: "string \<Rightarrow> string" where
  "process_education_level level_input =
     (if level_input = [] then []
      else let level_clean = py_strip (py_lower level_input)
           in dict_get processor_level_map level_clean level_input)"

text \<open>
  \<open>re.split(r'[,;]|\sand\s', s)\<close>: scanning from the left, a comma or a semicolon ends
  the current piece, and so does a whitespace character followed by \<open>and\<close> and another
  whitespace character (all five characters are consumed). The first argument is the piece
  read so far.
\<close>

definition and_delimiter :: "string \<Rightarrow> bool" where
  "and_delimiter s =
     (case s of
        w1 # a # n # d # w2 # _ \<Rightarrow>
          py_isspace w1 \<and> a = CHR ''a'' \<and> n = CHR ''n'' \<and> d = CHR ''d'' \<and> py_isspace w2
      | _ \<Rightarrow> False)"

function re_split_interests :: "string \<Rightarrow> string \<Rightarrow> string list" where
  "re_split_interests cur [] = [cur]"
| "re_split_interests cur (c # cs) =
     (if c = CHR '','' \<or> c = CHR '';'' then cur # re_split_interests [] cs
      else if and_delimiter (c # cs) then cur # re_split_interests [] (drop 4 cs)
      else re_split_interests (cur @ [c]) cs)"
  by pat_completeness auto
termination
  by (relation "measure (\<lambda>(cur, s). length s)") auto

definition interest_prefixes :: "string list" where
  "interest_prefixes =
     [''i like'', ''i love'', ''i enjoy'', ''i am interested in'', ''interested in'']"

text \<open>
  \<open>re.sub(r'^(i like|...|interested in)\s+', '', s)\<close>: the first alternative that is a
  prefix of \<open>s\<close> and is followed by whitespace is removed together with all the
  whitespace that follows it; without such an alternative the string is unchanged.
\<close>

fun sub_interest_prefix :: "string list \<Rightarrow> string \<Rightarrow> string" where
  "sub_interest_prefix [] s = s"
| "sub_interest_prefix (p # ps) s =
     (if prefix p s \<and> (case drop (length p) s of [] \<Rightarrow> False | c # _ \<Rightarrow> py_isspace c)
      then dropWhile py_isspace (drop (length p) s)
      else sub_interest_prefix ps s)"

text \<open>The cleaning loop; \<open>is_list\<close> is \<open>isinstance(interests_input, list)\<close>.\<close>

fun clean_interests :: "bool \<Rightarrow> string list \<Rightarrow> string list" where
  "clean_interests is_list [] = []"
| "clean_interests is_list (interest # rest) =
     (if is_list then interest # clean_interests is_list rest
      else let cleaned = py_strip (sub_interest_prefix interest_prefixes (py_lower interest))
           in if length cleaned > 1 then cleaned # clean_interests is_list rest
              else clean_interests is_list rest)"

fun process_interests :: "interests_input \<Rightarrow> string list" where
  "process_interests (InterestsStr s) =
     take 15 (clean_interests False
       (map py_strip (filter (\<lambda>i. py_strip i \<noteq> []) (re_split_interests [] (py_lower s)))))"
| "process_interests (InterestsList xs) =
     take 15 (clean_interests True (map py_strip (filter (\<lambda>i. py_strip i \<noteq> []) xs)))"
| "process_interests InterestsOther = []"

definition career_prefixes :: "string list" where
  "career_prefixes =
     [''i want to be a'', ''i want to be an'', ''i want to become a'', ''i want to become an'',
      ''i would like to be a'', ''i would like to be an'', ''becoming a'', ''becoming an'',
      ''my goal is to be a'', ''my goal is to be an'', ''i plan to be a'', ''i plan to be an'']"

fun remove_career_prefix :: "string list \<Rightarrow> string \<Rightarrow> string" where
  "remove_career_prefix [] career_clean = career_clean"
| "remove_career_prefix (p # ps) career_clean =
     (if prefix p career_clean then py_strip (drop (length p) career_clean)
      else remove_career_prefix ps career_clean)"

definition process_career_goal :: "string \<Rightarrow> string" where
  "process_career_goal career_input =
     (if career_input = [] then []
      else remove_career_prefix career_prefixes (py_strip (py_lower career_input)))"

definition category_keywords :: "(string \<times> string list) list" where
  "category_keywords =
    [(''Business'', [''business'', ''management'', ''marketing'', ''finance'', ''economics'', ''entrepreneurship'']),
     (''Natural Sciences'', [''science'', ''biology'', ''chemistry'', ''physics'', ''environmental'']),
     (''Computer Science'', [''computer'', ''programming'', ''technology'', ''coding'', ''software'', ''data'']),
     (''Health Sciences'', [''health'', ''medicine'', ''medical'', ''nursing'', ''pharmacy'', ''therapy'']),
     (''Social Sciences'', [''psychology'', ''sociology'', ''anthropology'', ''political'', ''social work'']),
     (''Humanities'', [''history'', ''literature'', ''philosophy'', ''languages'', ''cultural studies'']),
     (''Fine Arts'', [''art'', ''creative'', ''visual'', ''painting'', ''drawing'', ''design'']),
     (''Music'', [''music'', ''musical'', ''instrument'', ''singing'', ''composition'']),
     (''Education'', [''education'', ''teaching'', ''children'', ''learning'', ''classroom'']),
     (''Mathematics'', [''math'', ''statistics'', ''calculus'', ''algebra'', ''numbers'']),
     (''Communications'', [''communication'', ''media'', ''journalism'', ''writing'', ''public relations''])]"

text \<open>The inner loop over the category table for one interest, and the outer loop over the
  interests; both thread the list of categories found so far.\<close>

fun category_loop :: "string \<Rightarrow> (string \<times> string list) list \<Rightarrow> string list \<Rightarrow> string list" where
  "category_loop interest [] categories = categories"
| "category_loop interest ((cat, kws) # rest) categories =
     (if list_ex (\<lambda>keyword. py_in keyword interest) kws \<and> cat \<notin> set categories
      then category_loop interest rest (categories @ [cat])
      else category_loop interest rest categories)"

fun derive_loop :: "string list \<Rightarrow> string list \<Rightarrow> string list" where
  "derive_loop [] categories = categories"
| "derive_loop (interest # rest) categories =
     derive_loop rest (category_loop interest category_keywords categories)"

definition derive_categories_from_interests :: "interests_input \<Rightarrow> string list" where
  "derive_categories_from_interests interests_input =
     derive_loop (process_interests interests_input) []"

definition process_user_input :: "raw_input \<Rightarrow> user_profile" where
  "process_user_input raw =
     \<lparr>education_level = process_education_level (raw_education_level raw),
      interests = process_interests (raw_interests raw),
      career_goal = process_career_goal (raw_career_goal raw),
      preferred_categories = derive_categories_from_interests (raw_interests raw),
      additional_info = py_strip (raw_additional_info raw)\<rparr>"

record validation =
  errors :: "string list"
  warnings :: "string list"

definition warn_level :: string where
  "warn_level = ''Education level not specified. Recommendations will include all levels.''"

definition warn_no_interests :: string where
  "warn_no_interests =
     ''No interests specified. Consider adding some to get better recommendations.''"

definition warn_many_interests :: string where
  "warn_many_interests = ''Many interests specified. Consider focusing on your top priorities.''"

definition warn_career :: string where
  "warn_career = ''Career goal not specified. Adding one can help tailor recommendations.''"

definition validate_profile :: "user_profile \<Rightarrow> validation" where
  "validate_profile p =
     (let errs = [];
          warns0 = [];
          warns1 = (if education_level p = [] then warns0 @ [warn_level] else warns0);
          warns2 = (if interests p = [] then warns1 @ [warn_no_interests]
                    else if length (interests p) > 10 then warns1 @ [warn_many_interests]
                    else warns1);
          warns3 = (if career_goal p = [] then warns2 @ [warn_career] else warns2)
      in \<lparr>errors = errs, warnings = warns3\<rparr>)"

text \<open>The decimal numeral of a natural number, as an f-string renders it.\<close>

fun str_nat :: "nat \<Rightarrow> string" where
  "str_nat n =
     (if n < 10 then [''0123456789'' ! n] else str_nat (n div 10) @ [''0123456789'' ! (n mod 10)])"

definition summary_parts :: "user_profile \<Rightarrow> string list" where
  "summary_parts p =
     (let parts0 = [];
          parts1 = (if education_level p \<noteq> []
                    then parts0 @ [''Education Level: '' @ py_title (education_level p)]
                    else parts0);
          parts2 = (if interests p \<noteq> []
                    then (let interests_str0 = py_join '', '' (take 5 (interests p));
                              interests_str =
                                (if length (interests p) > 5
                                 then interests_str0 @ '' (and ''
                                        @ str_nat (length (interests p) - 5) @ '' more)''
                                 else interests_str0)
                          in parts1 @ [''Interests: '' @ interests_str])
                    else parts1);
          parts3 = (if career_goal p \<noteq> []
                    then parts2 @ [''Career Goal: '' @ py_title (career_goal p)]
                    else parts2);
          parts4 = (if additional_info p \<noteq> [] \<and> length (additional_info p) > 10
                    then parts3 @ [''Additional Notes: '' @ take 100 (additional_info p) @ ''...'']
                    else parts3)
      in parts4)"

definition not_provided :: string where
  "not_provided = ''Profile information not provided''"

definition create_profile_summary :: "user_profile \<Rightarrow> string" where
  "create_profile_summary p =
     (if summary_parts p \<noteq> [] then py_join [CHR 0x0A] (summary_parts p) else not_provided)"

definition get_sample_inputs :: raw_input where
  "get_sample_inputs =
     \<lparr>raw_education_level = ''2nd year'',
      raw_interests = InterestsList [''computer science'', ''business'', ''data analysis''],
      raw_career_goal = ''software engineer'',
      raw_additional_info = ''I am particularly interested in artificial intelligence and machine learning applications in business.''\<rparr>"

section \<open>The scoring rule and the ranked list\<close>

text \<open>
  The points one expanded keyword gives a course, as the specification words it: nothing
  when the keyword (lowercased and trimmed, as the search compares it) is not a substring of
  the combined search text, otherwise 3 for a match in the title, else 2 for a match in the
  description, else 1. The total score of a course is the sum over the expanded keywords.
\<close>

definition keyword_points :: "course \<Rightarrow> string \<Rightarrow> int" where
  "keyword_points c keyword =
     (let kw = py_strip (py_lower keyword) in
      if \<not> py_in kw (search_text c) then 0
      else if py_in kw (py_lower (title c)) then 3
      else if py_in kw (py_lower (description c)) then 2
      else 1)"

definition total_score :: "string list \<Rightarrow> course \<Rightarrow> int" where
  "total_score kws c = sum_list (map (keyword_points c) (expand_keywords kws))"

text \<open>The sorted list of the search before it is cut to \<open>max_results\<close>.\<close>

definition ranked_courses :: "course list \<Rightarrow> string list \<Rightarrow> course list" where
  "ranked_courses courses kws =
     map fst (sort_reverse snd (score_courses (expand_keywords kws) courses))"


text \<open>A string that ends with a whitespace character followed by \<open>and\<close>.\<close>

definition ends_with_and :: "string \<Rightarrow> bool" where
  "ends_with_and x = (\<exists>w0 z. py_isspace w0 \<and> x = z @ w0 # ''and'')"

section \<open>Example data\<close>

text \<open>The three-course catalog and the profile of the specification's scenario.\<close>

definition cs101 :: course where
  "cs101 = \<lparr>course_id = ''CS101'', title = ''Intro to Programming'', description = [],
     category = ''Computer Science'', level = ''1st year'',
     course_keywords = [''programming'', ''software''], credits = 3, prerequisites = None,
     semesters = []\<rparr>"

definition bus200 :: course where
  "bus200 = \<lparr>course_id = ''BUS200'', title = ''Business Basics'', description = [],
     category = ''Business'', level = ''2nd year'', course_keywords = [], credits = 3,
     prerequisites = None, semesters = []\<rparr>"

definition art150 :: course where
  "art150 = \<lparr>course_id = ''ART150'', title = ''Visual Arts Studio'', description = [],
     category = ''Fine Arts'', level = ''1st year'', course_keywords = [], credits = 3,
     prerequisites = None, semesters = []\<rparr>"

definition scenario_catalog :: "course list" where
  "scenario_catalog = [cs101, bus200, art150]"

definition scenario_profile :: user_profile where
  "scenario_profile = \<lparr>education_level = ''1st year'', interests = [''programming''],
     career_goal = [], preferred_categories = [], additional_info = []\<rparr>"

text \<open>Eleven courses that all match the keywords of the career goal \<open>musician\<close>.\<close>

definition music_course :: "string \<Rightarrow> course" where
  "music_course n = \<lparr>course_id = ''MUS'' @ n, title = ''Music Theory'', description = [],
     category = ''Music'', level = ''1st year'', course_keywords = [], credits = 3,
     prerequisites = None, semesters = []\<rparr>"

definition music_catalog :: "course list" where
  "music_catalog = map music_course
     [''01'', ''02'', ''03'', ''04'', ''05'', ''06'', ''07'', ''08'', ''09'', ''10'', ''11'']"

text \<open>A profile with every field empty, and one whose additional information is short.\<close>

definition empty_profile :: user_profile where
  "empty_profile = \<lparr>education_level = [], interests = [], career_goal = [],
     preferred_categories = [], additional_info = []\<rparr>"

definition short_notes_profile :: user_profile where
  "short_notes_profile = \<lparr>education_level = ''graduate'', interests = [''music''],
     career_goal = ''teacher'', preferred_categories = [''Music''],
     additional_info = ''evenings''\<rparr>"

definition many_interests_profile :: user_profile where
  "many_interests_profile = \<lparr>education_level = [],
     interests = [''a1'', ''a2'', ''a3'', ''a4'', ''a5'', ''a6'', ''a7'', ''a8'', ''a9'', ''a10'', ''a11''],
     career_goal = ''data scientist'', preferred_categories = [],
     additional_info = ''prefers morning classes''\<rparr>"

text \<open>
  The raw input read back from a profile: the four fields of the raw-input schema, the
  interests as a list; the derived field \<open>preferred_categories\<close> is dropped.
\<close>

definition raw_of_profile :: "user_profile \<Rightarrow> raw_input" where
  "raw_of_profile p =
     \<lparr>raw_education_level = education_level p, raw_interests = InterestsList (interests p),
      raw_career_goal = career_goal p, raw_additional_info = additional_info p\<rparr>"


section \<open>Character functions on the bits of a character\<close>

text \<open>
  The character tests and case conversions, restated on the eight bits of a character.
  Each equation is proved from the arithmetic definition by running through all 256
  characters; concrete strings are then evaluated with these equations.
\<close>

lemma py_isupper_code [code]:
  "py_isupper (Char b0 b1 b2 b3 b4 b5 b6 b7) =
     (\<not> b7 \<and> b6 \<and> \<not> b5 \<and> (b0 \<or> b1 \<or> b2 \<or> b3 \<or> b4) \<and> \<not> (b4 \<and> b3 \<and> (b2 \<or> (b1 \<and> b0))))"
  by (cases b0; cases b1; cases b2; cases b3; cases b4; cases b5; cases b6; cases b7;
      simp add: py_isupper_def)

lemma py_islower_code [code]:
  "py_islower (Char b0 b1 b2 b3 b4 b5 b6 b7) =
     (\<not> b7 \<and> b6 \<and> b5 \<and> (b0 \<or> b1 \<or> b2 \<or> b3 \<or> b4) \<and> \<not> (b4 \<and> b3 \<and> (b2 \<or> (b1 \<and> b0))))"
  by (cases b0; cases b1; cases b2; cases b3; cases b4; cases b5; cases b6; cases b7;
      simp add: py_islower_def)

lemma lower_char_code [code]:
  "lower_char (Char b0 b1 b2 b3 b4 b5 b6 b7) =
     (if py_isupper (Char b0 b1 b2 b3 b4 b5 b6 b7) then Char b0 b1 b2 b3 b4 True b6 b7
      else Char b0 b1 b2 b3 b4 b5 b6 b7)"
  by (cases b0; cases b1; cases b2; cases b3; cases b4; cases b5; cases b6; cases b7;
      simp add: lower_char_def py_isupper_def char_of_eq_iff take_bit_eq_mod)

lemma upper_char_code [code]:
  "upper_char (Char b0 b1 b2 b3 b4 b5 b6 b7) =
     (if py_islower (Char b0 b1 b2 b3 b4 b5 b6 b7) then Char b0 b1 b2 b3 b4 False b6 b7
      else Char b0 b1 b2 b3 b4 b5 b6 b7)"
  by (cases b0; cases b1; cases b2; cases b3; cases b4; cases b5; cases b6; cases b7;
      simp add: upper_char_def py_islower_def char_of_eq_iff take_bit_eq_mod)

lemma py_isspace_code [code]:
  "py_isspace (Char b0 b1 b2 b3 b4 b5 b6 b7) =
     (\<not> b7 \<and> \<not> b6 \<and>
       ((\<not> b5 \<and> \<not> b4 \<and> b3 \<and> ((\<not> b2 \<and> (b1 \<or> b0)) \<or> (b2 \<and> \<not> b1)))
        \<or> (\<not> b5 \<and> b4 \<and> b3 \<and> b2)
        \<or> (b5 \<and> \<not> b4 \<and> \<not> b3 \<and> \<not> b2 \<and> \<not> b1 \<and> \<not> b0)))"
  by (cases b0; cases b1; cases b2; cases b3; cases b4; cases b5; cases b6; cases b7;
      simp add: py_isspace_def)

section \<open>Substrings and character sets of the string functions\<close>

lemma py_in_sublist: "py_in k s = sublist k s"
  by (induction s) (auto simp: sublist_Cons_right)

lemma py_in_join: "x \<in> set xs \<Longrightarrow> py_in x (py_join sep xs)"
  unfolding py_in_sublist
proof (induction sep xs rule: py_join.induct)
  case (1 sep)
  then show ?case by simp
next
  case (2 sep y)
  then show ?case by simp
next
  case (3 sep y z zs)
  show ?case
  proof (cases "x = y")
    case True
    then show ?thesis by (simp add: prefix_imp_sublist)
  next
    case False
    with 3 have "sublist x (py_join sep (z # zs))" by simp
    then have "sublist x (y @ sep @ py_join sep (z # zs))"
      by (simp add: sublist_append)
    then show ?thesis by simp
  qed
qed

lemma set_py_strip: "set (py_strip s) \<subseteq> set s"
proof -
  have "set (py_strip s) \<subseteq> set (py_lstrip s)"
    unfolding py_strip_def py_rstrip_def using set_dropWhileD [of _ py_isspace "rev (py_lstrip s)"]
    by auto
  moreover have "set (py_lstrip s) \<subseteq> set s"
    unfolding py_lstrip_def using set_dropWhileD [of _ py_isspace s] by auto
  ultimately show ?thesis by blast
qed

lemma not_upper_lower_char: "\<not> py_isupper (lower_char c)"
  by (auto simp: lower_char_def py_isupper_def Let_def)

lemma py_lower_fixed: "\<forall>c \<in> set s. \<not> py_isupper c \<Longrightarrow> py_lower s = s"
  by (induction s) (simp_all add: py_lower_def lower_char_def)

lemma py_lower_no_upper: "c \<in> set (py_lower s) \<Longrightarrow> \<not> py_isupper c"
  by (auto simp: py_lower_def not_upper_lower_char)

section \<open>The merge keeps distinct ids inside the level-pass universe\<close>

lemma merge_loop_inv:
  assumes "fst st = course_id ` set (snd st)" "distinct (map course_id (snd st))"
    "set (snd st) \<subseteq> set L"
  shows "fst (merge_loop L cs st) = course_id ` set (snd (merge_loop L cs st))
   \<and> distinct (map course_id (snd (merge_loop L cs st)))
   \<and> set (snd (merge_loop L cs st)) \<subseteq> set L"
  using assms
proof (induction cs arbitrary: st)
  case Nil
  then show ?case by simp
next
  case (Cons c cs)
  obtain seen uniq where st: "st = (seen, uniq)" by (cases st)
  show ?case
  proof (cases "course_id c \<notin> seen \<and> c \<in> set L")
    case True
    have "fst (merge_loop L cs (insert (course_id c) seen, uniq @ [c]))
            = course_id ` set (snd (merge_loop L cs (insert (course_id c) seen, uniq @ [c])))
      \<and> distinct (map course_id (snd (merge_loop L cs (insert (course_id c) seen, uniq @ [c]))))
      \<and> set (snd (merge_loop L cs (insert (course_id c) seen, uniq @ [c]))) \<subseteq> set L"
      using Cons.prems True st by (intro Cons.IH) auto
    with True st show ?thesis by simp
  next
    case False
    with Cons st show ?thesis by auto
  qed
qed

lemma backfill_loop_inv:
  assumes "fst st = course_id ` set (snd st)" "distinct (map course_id (snd st))"
    "set (snd st) \<subseteq> set L" "set cs \<subseteq> set L"
  shows "fst (backfill_loop cs st) = course_id ` set (snd (backfill_loop cs st))
   \<and> distinct (map course_id (snd (backfill_loop cs st)))
   \<and> set (snd (backfill_loop cs st)) \<subseteq> set L"
  using assms
proof (induction cs arbitrary: st)
  case Nil
  then show ?case by simp
next
  case (Cons c cs)
  obtain seen uniq where st: "st = (seen, uniq)" by (cases st)
  show ?case
  proof (cases "course_id c \<notin> seen \<and> length uniq < 12")
    case True
    have "fst (backfill_loop cs (insert (course_id c) seen, uniq @ [c]))
            = course_id ` set (snd (backfill_loop cs (insert (course_id c) seen, uniq @ [c])))
      \<and> distinct (map course_id (snd (backfill_loop cs (insert (course_id c) seen, uniq @ [c]))))
      \<and> set (snd (backfill_loop cs (insert (course_id c) seen, uniq @ [c]))) \<subseteq> set L"
      using Cons.prems True st by (intro Cons.IH) auto
    with True st show ?thesis by simp
  next
    case False
    with Cons st show ?thesis by auto
  qed
qed

text \<open>
  Claim C1. For every user profile and every catalog, \<open>get_recommended_courses\<close> returns
  a list of at most 12 courses whose ids are pairwise distinct, and every returned course
  belongs to the level-pass universe, which is the whole catalog when \<open>education_level\<close>
  is empty and the level-filtered catalog otherwise.
\<close>

theorem recommended_bounded_distinct_in_universe:
  "length (get_recommended_courses courses p) \<le> 12
   \<and> distinct (map course_id (get_recommended_courses courses p))
   \<and> set (get_recommended_courses courses p) \<subseteq> set (level_universe courses p)
   \<and> level_universe courses p =
       (if education_level p = [] then courses
        else search_courses_by_level courses (education_level p))"
proof -
  define L where "L = level_universe courses p"
  define A where "A = career_pass courses p @ interest_pass courses p @ category_pass courses p"
  define m where "m = merge_loop L A ({}, [])"
  define f where "f = (if length (snd m) < 8 then backfill_loop L m else m)"
  have r: "get_recommended_courses courses p = take 12 (snd f)"
    by (simp add: get_recommended_courses_def Let_def L_def A_def m_def f_def)
  have im: "fst m = course_id ` set (snd m) \<and> distinct (map course_id (snd m))
      \<and> set (snd m) \<subseteq> set L"
    unfolding m_def by (rule merge_loop_inv) simp_all
  have "fst f = course_id ` set (snd f) \<and> distinct (map course_id (snd f))
      \<and> set (snd f) \<subseteq> set L"
  proof (cases "length (snd m) < 8")
    case True
    then have "f = backfill_loop L m" by (simp add: f_def)
    then show ?thesis using im backfill_loop_inv [of m L L] by simp
  next
    case False
    then show ?thesis using im by (simp add: f_def)
  qed
  then have d: "distinct (map course_id (snd f))" and s: "set (snd f) \<subseteq> set L" by simp_all
  have "distinct (map course_id (take 12 (snd f)))"
    using d by (simp add: take_map [symmetric])
  moreover have "set (take 12 (snd f)) \<subseteq> set L"
    using s set_take_subset by fastforce
  ultimately show ?thesis
    by (simp add: r L_def) (simp add: level_universe_def)
qed

theorem recommended_bounded_distinct_in_universe_witness:
  "get_recommended_courses scenario_catalog scenario_profile = [cs101, art150]
   \<and> length (get_recommended_courses scenario_catalog scenario_profile) \<le> 12
   \<and> distinct (map course_id (get_recommended_courses scenario_catalog scenario_profile))
   \<and> set (get_recommended_courses scenario_catalog scenario_profile)
        \<subseteq> set (level_universe scenario_catalog scenario_profile)"
proof -
  have "get_recommended_courses scenario_catalog scenario_profile = [cs101, art150]"
    by code_simp
  then show ?thesis
    using recommended_bounded_distinct_in_universe [of scenario_catalog scenario_profile]
    by blast
qed

section \<open>The scored keyword search\<close>

lemma score_loop_sum: "score_loop c ks s = s + sum_list (map (keyword_points c) ks)"
  by (induction ks arbitrary: s) (simp_all add: keyword_points_def Let_def)

lemma score_courses_filter:
  "score_courses (expand_keywords kws) cs =
     map (\<lambda>c. (c, total_score kws c)) (filter (\<lambda>c. 0 < total_score kws c) cs)"
  by (induction cs) (simp_all add: Let_def score_loop_sum total_score_def)

lemma insort_key_map:
  "insort_key f (g x) (map g ys) = map g (insort_key (\<lambda>y. f (g y)) x ys)"
  by (induction ys) simp_all

lemma sort_key_map: "sort_key f (map g xs) = map g (sort_key (\<lambda>y. f (g y)) xs)"
  by (induction xs) (simp_all add: insort_key_map)

lemma ranked_courses_sort:
  "ranked_courses courses kws =
     sort_reverse (total_score kws) (filter (\<lambda>c. 0 < total_score kws c) courses)"
proof -
  let ?F = "filter (\<lambda>c. 0 < total_score kws c) courses"
  have "sort_key snd (rev (map (\<lambda>c. (c, total_score kws c)) ?F))
          = map (\<lambda>c. (c, total_score kws c)) (sort_key (total_score kws) (rev ?F))"
    by (simp add: rev_map sort_key_map)
  then show ?thesis
    by (simp add: ranked_courses_def score_courses_filter sort_reverse_def rev_map o_def)
qed

lemma sort_reverse_stable:
  "filter (\<lambda>y. f y = k) (sort_reverse f xs) = filter (\<lambda>y. f y = k) xs"
  by (simp add: sort_reverse_def rev_filter [symmetric] sort_key_stable)

lemma sort_reverse_descending: "sorted_wrt (\<lambda>a b. f b \<le> f a) (sort_reverse f xs)"
  using sorted_sort_key [of f "rev xs"]
  by (simp add: sort_reverse_def sorted_wrt_rev sorted_map)

lemma set_sort_reverse: "set (sort_reverse f xs) = set xs"
  by (simp add: sort_reverse_def)

lemma keywords_slice:
  "search_courses_by_keywords courses kws m = py_slice_to m (ranked_courses courses kws)"
  by (simp add: search_courses_by_keywords_def ranked_courses_def Let_def py_slice_to_def take_map)

lemma length_ranked_courses:
  "length (ranked_courses courses kws) = length (filter (\<lambda>c. 0 < total_score kws c) courses)"
  by (simp add: ranked_courses_sort sort_reverse_def)

text \<open>
  Claim C2. The scored keyword search gives each course, for every expanded keyword that
  is a substring of its combined lowercase search text, 3 points when the keyword occurs in
  the title, else 2 when it occurs in the description, else 1 (\<open>total_score\<close>); the courses
  of total score 0 are left out; the others are sorted by score, highest first, and courses
  of equal score keep their catalog order; the result is the first \<open>max_results\<close> entries
  of that list. Being a function of the catalog and the keywords, the order is the same on
  every run.
\<close>

theorem keyword_search_ranked:
  assumes "0 \<le> max_results"
  shows "search_courses_by_keywords courses kws max_results
           = take (nat max_results) (ranked_courses courses kws)
     \<and> set (ranked_courses courses kws) = {c \<in> set courses. 0 < total_score kws c}
     \<and> sorted_wrt (\<lambda>a b. total_score kws b \<le> total_score kws a) (ranked_courses courses kws)
     \<and> (\<forall>s. 0 < s \<longrightarrow> filter (\<lambda>c. total_score kws c = s) (ranked_courses courses kws)
                      = filter (\<lambda>c. total_score kws c = s) courses)"
proof -
  have "\<forall>s. 0 < s \<longrightarrow> filter (\<lambda>c. total_score kws c = s) (ranked_courses courses kws)
                      = filter (\<lambda>c. total_score kws c = s) courses"
  proof (intro allI impI)
    fix s :: int assume "0 < s"
    then have "(\<lambda>c. total_score kws c = s \<and> 0 < total_score kws c) = (\<lambda>c. total_score kws c = s)"
      by auto
    then show "filter (\<lambda>c. total_score kws c = s) (ranked_courses courses kws)
                      = filter (\<lambda>c. total_score kws c = s) courses"
      by (simp add: ranked_courses_sort sort_reverse_stable conj_commute)
  qed
  then show ?thesis using assms
    by (simp add: keywords_slice py_slice_to_def)
       (simp add: ranked_courses_sort set_sort_reverse sort_reverse_descending)
qed

text \<open>On the scenario catalog with the keywords \<open>programming\<close> and \<open>Visual Arts\<close>:
  \<open>ART150\<close> scores 9, \<open>CS101\<close> scores 3 and \<open>BUS200\<close> scores 0.\<close>

theorem keyword_search_ranked_witness:
  "(0::int) \<le> 1
   \<and> map (total_score [''programming'', ''Visual Arts'']) scenario_catalog = [3, 0, 9]
   \<and> ranked_courses scenario_catalog [''programming'', ''Visual Arts''] = [art150, cs101]
   \<and> search_courses_by_keywords scenario_catalog [''programming'', ''Visual Arts''] 1
        = take (nat 1) (ranked_courses scenario_catalog [''programming'', ''Visual Arts''])
   \<and> search_courses_by_keywords scenario_catalog [''programming'', ''Visual Arts''] 1 = [art150]"
proof -
  have h: "(0::int) \<le> 1" by simp
  have s: "map (total_score [''programming'', ''Visual Arts'']) scenario_catalog = [3, 0, 9]"
    by code_simp
  have r: "ranked_courses scenario_catalog [''programming'', ''Visual Arts''] = [art150, cs101]"
    by code_simp
  note t = keyword_search_ranked [OF h, of scenario_catalog "[''programming'', ''Visual Arts'']",
      THEN conjunct1]
  have "search_courses_by_keywords scenario_catalog [''programming'', ''Visual Arts''] 1 = [art150]"
    unfolding t r by simp
  with h s r t show ?thesis by (intro conjI)
qed

text \<open>
  Claim C3, as amended. The career-goal pass calls the scored keyword search with the
  default cap of 10 results: its result is the first 10 entries of the ranked list for the
  career keywords, so it never has more than 10 courses, every course in it has a positive
  score, and every course with a positive score appears in it whenever at most 10 courses
  of the catalog score positively.
\<close>

theorem career_search_capped_at_ten:
  "search_courses_by_career_goal courses goal
      = take 10 (ranked_courses courses (career_goal_keywords goal))
   \<and> length (search_courses_by_career_goal courses goal) \<le> 10
   \<and> set (search_courses_by_career_goal courses goal)
        \<subseteq> {c \<in> set courses. 0 < total_score (career_goal_keywords goal) c}
   \<and> (length (filter (\<lambda>c. 0 < total_score (career_goal_keywords goal) c) courses) \<le> 10
        \<longrightarrow> set (search_courses_by_career_goal courses goal)
              = {c \<in> set courses. 0 < total_score (career_goal_keywords goal) c})"
proof -
  let ?K = "career_goal_keywords goal"
  have e: "search_courses_by_career_goal courses goal = take 10 (ranked_courses courses ?K)"
    by (simp add: search_courses_by_career_goal_def keywords_slice py_slice_to_def)
  have s: "set (ranked_courses courses ?K) = {c \<in> set courses. 0 < total_score ?K c}"
    by (simp add: ranked_courses_sort set_sort_reverse)
  have "set (take 10 (ranked_courses courses ?K)) \<subseteq> set (ranked_courses courses ?K)"
    by (rule set_take_subset)
  with s have sub: "set (search_courses_by_career_goal courses goal)
        \<subseteq> {c \<in> set courses. 0 < total_score ?K c}"
    by (simp add: e)
  have "length (filter (\<lambda>c. 0 < total_score ?K c) courses) \<le> 10
        \<longrightarrow> set (search_courses_by_career_goal courses goal)
              = {c \<in> set courses. 0 < total_score ?K c}"
    using s by (simp add: e length_ranked_courses [symmetric])
  with sub show ?thesis by (simp add: e)
qed

text \<open>The claim as stated fails on a catalog of eleven music courses and the career goal
  \<open>musician\<close>: the eleventh course scores 6 and is not returned.\<close>

theorem career_search_uncapped_counterexample:
  "''musician'' \<noteq> []
   \<and> music_course ''11'' \<in> set music_catalog
   \<and> 0 < total_score (career_goal_keywords ''musician'') (music_course ''11'')
   \<and> music_course ''11'' \<notin> set (search_courses_by_career_goal music_catalog ''musician'')
   \<and> length (search_courses_by_career_goal music_catalog ''musician'') = 10"
  by code_simp

theorem career_search_capped_at_ten_witness:
  "length (filter (\<lambda>c. 0 < total_score (career_goal_keywords ''software engineer'') c)
       scenario_catalog) \<le> 10
   \<and> search_courses_by_career_goal scenario_catalog ''software engineer'' = [cs101]
   \<and> set (search_courses_by_career_goal scenario_catalog ''software engineer'')
       = {c \<in> set scenario_catalog. 0 < total_score (career_goal_keywords ''software engineer'') c}"
proof -
  have h: "length (filter (\<lambda>c. 0 < total_score (career_goal_keywords ''software engineer'') c)
       scenario_catalog) \<le> 10"
    by code_simp
  have v: "search_courses_by_career_goal scenario_catalog ''software engineer'' = [cs101]"
    by code_simp
  note t = career_search_capped_at_ten [of scenario_catalog "''software engineer''",
      THEN conjunct2, THEN conjunct2, THEN conjunct2, THEN mp, OF h]
  from h v t show ?thesis by (intro conjI)
qed

section \<open>The merge when only the level is given, and on the empty catalog\<close>




lemma merge_loop_empty_universe: "merge_loop [] cs st = st"
  by (induction cs arbitrary: st) auto

lemma empty_catalog: "get_recommended_courses [] p = []"
proof -
  have lu: "level_universe [] p = []"
    by (simp add: level_universe_def search_courses_by_level_def)
  show ?thesis
    unfolding get_recommended_courses_def lu Let_def merge_loop_empty_universe by simp
qed



text \<open>
  Claim C7. On the empty catalog \<open>get_recommended_courses\<close> returns the empty list for
  every profile; for the profile whose fields are all empty, \<open>validate_profile\<close> returns
  no errors and only warnings, and \<open>create_profile_summary\<close> returns the fallback text.
\<close>

theorem empty_catalog_and_empty_profile:
  "get_recommended_courses [] p = []
   \<and> errors (validate_profile empty_profile) = []
   \<and> warnings (validate_profile empty_profile) = [warn_level, warn_no_interests, warn_career]
   \<and> create_profile_summary empty_profile = ''Profile information not provided''"
proof -
  have "errors (validate_profile empty_profile) = []
   \<and> warnings (validate_profile empty_profile) = [warn_level, warn_no_interests, warn_career]
   \<and> create_profile_summary empty_profile = ''Profile information not provided''"
    by code_simp
  then show ?thesis by (simp add: empty_catalog)
qed

theorem empty_catalog_and_empty_profile_witness:
  "get_recommended_courses [] scenario_profile = []
   \<and> get_recommended_courses [] empty_profile = []
   \<and> warnings (validate_profile empty_profile) = [warn_level, warn_no_interests, warn_career]"
proof -
  note a = empty_catalog_and_empty_profile [of scenario_profile, THEN conjunct1]
  note b = empty_catalog_and_empty_profile [of empty_profile, THEN conjunct1]
  note c = empty_catalog_and_empty_profile [of empty_profile, THEN conjunct2, THEN conjunct2,
      THEN conjunct1]
  from a b c show ?thesis by (intro conjI)
qed

section \<open>Validation and summary of a profile\<close>

lemma warnings_distinct:
  "warn_level \<noteq> warn_no_interests" "warn_level \<noteq> warn_many_interests" "warn_level \<noteq> warn_career"
  "warn_no_interests \<noteq> warn_many_interests" "warn_no_interests \<noteq> warn_career"
  "warn_many_interests \<noteq> warn_career"
  by (simp_all add: warn_level_def warn_no_interests_def warn_many_interests_def warn_career_def)

text \<open>
  Claim C6. For every profile, \<open>validate_profile\<close> returns an empty list of errors, and a
  list of warnings that holds the level warning exactly when the education level is empty,
  the no-interests warning exactly when the interests list is empty, the many-interests
  warning exactly when the list has more than 10 entries, the career warning exactly when
  the career goal is empty, and nothing else.
\<close>

theorem validate_profile_warnings:
  "errors (validate_profile p) = []
   \<and> (warn_level \<in> set (warnings (validate_profile p)) \<longleftrightarrow> education_level p = [])
   \<and> (warn_no_interests \<in> set (warnings (validate_profile p)) \<longleftrightarrow> interests p = [])
   \<and> (warn_many_interests \<in> set (warnings (validate_profile p)) \<longleftrightarrow> 10 < length (interests p))
   \<and> (warn_career \<in> set (warnings (validate_profile p)) \<longleftrightarrow> career_goal p = [])
   \<and> set (warnings (validate_profile p))
        \<subseteq> {warn_level, warn_no_interests, warn_many_interests, warn_career}"
  using warnings_distinct by (auto simp: validate_profile_def Let_def)

theorem validate_profile_warnings_witness:
  "errors (validate_profile many_interests_profile) = []
   \<and> warnings (validate_profile many_interests_profile) = [warn_level, warn_many_interests]
   \<and> (warn_many_interests \<in> set (warnings (validate_profile many_interests_profile))
        \<longleftrightarrow> 10 < length (interests many_interests_profile))"
proof -
  have w: "warnings (validate_profile many_interests_profile) = [warn_level, warn_many_interests]"
    by code_simp
  note a = validate_profile_warnings [of many_interests_profile, THEN conjunct1]
  note b = validate_profile_warnings [of many_interests_profile, THEN conjunct2, THEN conjunct2,
      THEN conjunct2, THEN conjunct1]
  from a w b show ?thesis by (intro conjI)
qed

text \<open>
  Claim C4, as amended. For every profile, the summary has one line per field that is
  present, in this order: the title-cased education level when it is not empty; the first 5
  interests, followed by \<open>(and N more)\<close> when there are more than 5, when the list is not
  empty; the title-cased career goal when it is not empty; and, when the additional
  information has more than 10 characters, its first 100 characters followed by three
  dots. Every such line occurs in the returned text, which is the fallback text when there
  is no line.
\<close>

theorem profile_summary_contents:
  "summary_parts p =
      (if education_level p \<noteq> [] then [''Education Level: '' @ py_title (education_level p)]
       else [])
    @ (if interests p \<noteq> []
       then [''Interests: '' @ py_join '', '' (take 5 (interests p))
              @ (if 5 < length (interests p)
                 then '' (and '' @ str_nat (length (interests p) - 5) @ '' more)'' else [])]
       else [])
    @ (if career_goal p \<noteq> [] then [''Career Goal: '' @ py_title (career_goal p)] else [])
    @ (if 10 < length (additional_info p)
       then [''Additional Notes: '' @ take 100 (additional_info p) @ ''...''] else [])
   \<and> create_profile_summary p =
       (if summary_parts p = [] then ''Profile information not provided''
        else py_join [CHR 0x0A] (summary_parts p))
   \<and> (\<forall>line \<in> set (summary_parts p). py_in line (create_profile_summary p))"
proof -
  have "\<forall>line \<in> set (summary_parts p). py_in line (create_profile_summary p)"
    by (auto simp: create_profile_summary_def intro: py_in_join)
  moreover have "create_profile_summary p =
       (if summary_parts p = [] then ''Profile information not provided''
        else py_join [CHR 0x0A] (summary_parts p))"
    by (simp add: create_profile_summary_def not_provided_def)
  moreover have "summary_parts p =
      (if education_level p \<noteq> [] then [''Education Level: '' @ py_title (education_level p)]
       else [])
    @ (if interests p \<noteq> []
       then [''Interests: '' @ py_join '', '' (take 5 (interests p))
              @ (if 5 < length (interests p)
                 then '' (and '' @ str_nat (length (interests p) - 5) @ '' more)'' else [])]
       else [])
    @ (if career_goal p \<noteq> [] then [''Career Goal: '' @ py_title (career_goal p)] else [])
    @ (if 10 < length (additional_info p)
       then [''Additional Notes: '' @ take 100 (additional_info p) @ ''...''] else [])"
    by (simp add: summary_parts_def Let_def)
  ultimately show ?thesis by (intro conjI)
qed

text \<open>The claim as stated fails for additional information of 8 characters: it is not
  empty, and the summary does not show it.\<close>

theorem profile_summary_short_notes_counterexample:
  "additional_info short_notes_profile = ''evenings''
   \<and> additional_info short_notes_profile \<noteq> []
   \<and> create_profile_summary short_notes_profile
       = ''Education Level: Graduate'' @ [CHR 0x0A] @ ''Interests: music'' @ [CHR 0x0A]
           @ ''Career Goal: Teacher''
   \<and> \<not> py_in (take 100 (additional_info short_notes_profile) @ ''...'')
          (create_profile_summary short_notes_profile)
   \<and> \<not> py_in ''evenings'' (create_profile_summary short_notes_profile)"
  by code_simp

theorem profile_summary_contents_witness:
  "create_profile_summary many_interests_profile
     = ''Interests: a1, a2, a3, a4, a5 (and 6 more)'' @ [CHR 0x0A]
        @ ''Career Goal: Data Scientist'' @ [CHR 0x0A]
        @ ''Additional Notes: prefers morning classes...''
   \<and> ''Additional Notes: prefers morning classes...'' \<in> set (summary_parts many_interests_profile)
   \<and> py_in ''Additional Notes: prefers morning classes...''
        (create_profile_summary many_interests_profile)"
proof -
  have v: "create_profile_summary many_interests_profile
     = ''Interests: a1, a2, a3, a4, a5 (and 6 more)'' @ [CHR 0x0A]
        @ ''Career Goal: Data Scientist'' @ [CHR 0x0A]
        @ ''Additional Notes: prefers morning classes...''"
    by code_simp
  have l: "''Additional Notes: prefers morning classes...''
             \<in> set (summary_parts many_interests_profile)"
    by code_simp
  note t = profile_summary_contents [of many_interests_profile, THEN conjunct2, THEN conjunct2,
      THEN bspec, OF l]
  from v l t show ?thesis by (intro conjI)
qed

section \<open>Normalization of the interests\<close>

lemma clean_interests_list: "clean_interests True xs = xs"
  by (induction xs) simp_all

lemma clean_interests_text:
  "clean_interests False xs =
     filter (\<lambda>t. 1 < length t)
       (map (\<lambda>i. py_strip (sub_interest_prefix interest_prefixes (py_lower i))) xs)"
  by (induction xs) (simp_all add: Let_def)

lemma set_sub_interest_prefix: "set (sub_interest_prefix ps s) \<subseteq> set s"
proof (induction ps)
  case Nil
  then show ?case by simp
next
  case (Cons p ps)
  have "set (dropWhile py_isspace (drop (length p) s)) \<subseteq> set s"
    using set_dropWhileD [of _ py_isspace "drop (length p) s"] set_drop_subset [of "length p" s]
    by auto
  with Cons show ?case by simp
qed

lemma re_split_chars:
  "t \<in> set (re_split_interests cur s) \<Longrightarrow> CHR '','' \<notin> set cur \<Longrightarrow> CHR '';'' \<notin> set cur \<Longrightarrow>
   set t \<subseteq> (set cur \<union> set s) - {CHR '','', CHR '';''}"
proof (induction cur s rule: re_split_interests.induct)
  case (1 cur)
  then show ?case by auto
next
  case (2 cur c cs)
  show ?case
  proof (cases "c = CHR '','' \<or> c = CHR '';''")
    case True
    with 2 show ?thesis by auto
  next
    case notdelim: False
    show ?thesis
    proof (cases "and_delimiter (c # cs)")
      case True
      with notdelim 2 have "t = cur \<or> t \<in> set (re_split_interests [] (drop 4 cs))" by auto
      then show ?thesis
      proof
        assume "t = cur"
        with 2 show ?thesis by auto
      next
        assume a: "t \<in> set (re_split_interests [] (drop 4 cs))"
        have "set t \<subseteq> (set [] \<union> set (drop 4 cs)) - {CHR '','', CHR '';''}"
          using notdelim True a by (intro 2) auto
        moreover have "set (drop 4 cs) \<subseteq> set cs" by (rule set_drop_subset)
        ultimately show ?thesis by auto
      qed
    next
      case False
      with notdelim 2 have a: "t \<in> set (re_split_interests (cur @ [c]) cs)" by auto
      have "set t \<subseteq> (set (cur @ [c]) \<union> set cs) - {CHR '','', CHR '';''}"
        using notdelim False a 2 by (intro 2) auto
      then show ?thesis by auto
    qed
  qed
qed

lemma text_tokens:
  assumes "t \<in> set (process_interests (InterestsStr s))"
  shows "1 < length t \<and> py_lower t = t \<and> CHR '','' \<notin> set t \<and> CHR '';'' \<notin> set t"
proof -
  from assms have "t \<in> set (clean_interests False
       (map py_strip (filter (\<lambda>i. py_strip i \<noteq> []) (re_split_interests [] (py_lower s)))))"
    using in_set_takeD by fastforce
  then obtain r where len: "1 < length t"
    and r: "r \<in> set (re_split_interests [] (py_lower s))"
    and t: "t = py_strip (sub_interest_prefix interest_prefixes (py_lower (py_strip r)))"
    by (auto simp: clean_interests_text)
  have rs: "set r \<subseteq> set (py_lower s) - {CHR '','', CHR '';''}"
    using re_split_chars [OF r] by simp
  have sr: "set (py_strip r) \<subseteq> set r" by (rule set_py_strip)
  have "\<forall>c \<in> set (py_strip r). \<not> py_isupper c"
    using rs sr py_lower_no_upper by blast
  then have l: "py_lower (py_strip r) = py_strip r" by (rule py_lower_fixed)
  have "set t \<subseteq> set (py_strip r)"
    unfolding t l using set_py_strip set_sub_interest_prefix by blast
  with sr rs have ts: "set t \<subseteq> set (py_lower s) - {CHR '','', CHR '';''}" by blast
  then have "\<forall>c \<in> set t. \<not> py_isupper c" using py_lower_no_upper by blast
  then have "py_lower t = t" by (rule py_lower_fixed)
  with len ts show ?thesis by auto
qed

lemma list_mode_interests: "set (process_interests (InterestsList xs)) \<subseteq> py_strip ` set xs"
proof -
  have "set (take 15 (map py_strip (filter (\<lambda>i. py_strip i \<noteq> []) xs)))
          \<subseteq> set (map py_strip (filter (\<lambda>i. py_strip i \<noteq> []) xs))"
    by (rule set_take_subset)
  then show ?thesis by (auto simp: clean_interests_list)
qed

lemma not_space_chars:
  "\<not> py_isspace CHR '',''" "\<not> py_isspace CHR '';''" "\<not> py_isspace CHR ''a''"
  "\<not> py_isspace CHR ''n''" "\<not> py_isspace CHR ''d''"
  by code_simp+

lemma lower_char_space: "py_isspace w \<Longrightarrow> lower_char w = w"
  by (auto simp: py_isspace_def py_isupper_def lower_char_def Let_def)

lemma lower_char_delims: "lower_char CHR '','' = CHR '',''" "lower_char CHR '';'' = CHR '';''"
  by code_simp+

lemma lower_char_eq_comma: "lower_char c = CHR '','' \<longleftrightarrow> c = CHR '',''"
  by (cases c) (auto simp: lower_char_code py_isupper_code)

lemma lower_char_eq_semicolon: "lower_char c = CHR '';'' \<longleftrightarrow> c = CHR '';''"
  by (cases c) (auto simp: lower_char_code py_isupper_code)

lemma py_lower_append: "py_lower (a @ b) = py_lower a @ py_lower b"
  by (simp add: py_lower_def)

lemma py_lower_idem: "py_lower (py_lower s) = py_lower s"
  using py_lower_fixed py_lower_no_upper by blast

lemma and_delimiter_iff:
  "and_delimiter u \<longleftrightarrow>
     (\<exists>w1 w2 rest. py_isspace w1 \<and> py_isspace w2 \<and> u = w1 # ''and'' @ w2 # rest)"
  by (auto simp: and_delimiter_def split: list.splits)

lemma and_delimiter_append: "and_delimiter u \<Longrightarrow> and_delimiter (u @ v)"
  by (auto simp: and_delimiter_iff)

lemma and_delimiter_length: "and_delimiter u \<Longrightarrow> 5 \<le> length u"
  by (auto simp: and_delimiter_iff)

lemma and_delimiter_before_delim:
  "d = CHR '','' \<or> d = CHR '';'' \<Longrightarrow> and_delimiter (x @ d # y) = and_delimiter x"
  using not_space_chars
  by (auto simp: and_delimiter_def split: list.splits)


lemma re_split_at_delim:
  "d = CHR '','' \<or> d = CHR '';'' \<Longrightarrow>
   re_split_interests cur (x @ d # y) = re_split_interests cur x @ re_split_interests [] y"
proof (induction cur x rule: re_split_interests.induct)
  case (1 cur)
  then show ?case by auto
next
  case (2 cur c cs)
  show ?case
  proof (cases "c = CHR '','' \<or> c = CHR '';''")
    case True
    with 2 show ?thesis by auto
  next
    case nd: False
    show ?thesis
    proof (cases "and_delimiter (c # cs)")
      case True
      then have l: "4 \<le> length cs" using and_delimiter_length by fastforce
      have a: "and_delimiter (c # cs @ d # y)"
        using and_delimiter_append [OF True, of "d # y"] by simp
      from 2(2) [OF nd True 2(4)] nd True a l show ?thesis by simp
    next
      case False
      then have "\<not> and_delimiter (c # cs @ d # y)"
        using and_delimiter_before_delim [OF 2(4), of "c # cs" y] by simp
      with 2(3) [OF nd False 2(4)] nd False show ?thesis by simp
    qed
  qed
qed

lemma ends_with_and_suffix: "\<not> ends_with_and (u @ v) \<Longrightarrow> \<not> ends_with_and v"
  by (auto simp: ends_with_and_def)

lemma and_delimiter_before_and:
  assumes "py_isspace w1" "py_isspace w2" "\<not> ends_with_and x" "x \<noteq> []"
  shows "and_delimiter (x @ w1 # ''and'' @ w2 # y) = and_delimiter x"
proof -
  have w: "w1 \<noteq> CHR ''a''" "w1 \<noteq> CHR ''n''" "w1 \<noteq> CHR ''d''"
    using assms(1) not_space_chars by auto
  from assms(3) have e: "\<And>w0. x = [w0, CHR ''a'', CHR ''n'', CHR ''d''] \<Longrightarrow> \<not> py_isspace w0"
    by (auto simp: ends_with_and_def)
  show ?thesis
    using w e assms(4) by (auto simp: and_delimiter_def split: list.splits)
qed

lemma re_split_at_and:
  "py_isspace w1 \<Longrightarrow> py_isspace w2 \<Longrightarrow> \<not> ends_with_and x \<Longrightarrow>
   re_split_interests cur (x @ w1 # ''and'' @ w2 # y)
     = re_split_interests cur x @ re_split_interests [] y"
proof (induction cur x rule: re_split_interests.induct)
  case (1 cur)
  then have "w1 \<noteq> CHR '',''" "w1 \<noteq> CHR '';''" using not_space_chars by auto
  moreover have "and_delimiter (w1 # ''and'' @ w2 # y)"
    using 1 by (auto simp: and_delimiter_iff)
  ultimately show ?case by simp
next
  case (2 cur c cs)
  have e1: "\<not> ends_with_and cs"
    using ends_with_and_suffix [of "[c]" cs] 2(6) by simp
  have e4: "\<not> ends_with_and (drop 4 cs)"
    using ends_with_and_suffix [of "take 4 cs" "drop 4 cs"] e1 by simp
  show ?case
  proof (cases "c = CHR '','' \<or> c = CHR '';''")
    case True
    with 2(1) [OF True 2(4,5) e1] show ?thesis by auto
  next
    case nd: False
    have eq: "and_delimiter (c # cs @ w1 # ''and'' @ w2 # y) = and_delimiter (c # cs)"
      using and_delimiter_before_and [OF 2(4,5,6), of y] by simp
    show ?thesis
    proof (cases "and_delimiter (c # cs)")
      case True
      then have l: "4 \<le> length cs" using and_delimiter_length by fastforce
      from 2(2) [OF nd True 2(4,5) e4] nd True eq l show ?thesis by simp
    next
      case False
      with 2(3) [OF nd False 2(4,5) e1] nd eq show ?thesis by simp
    qed
  qed
qed

lemma py_rstrip_prefix: "prefix (py_rstrip y) y"
proof -
  have "rev y = takeWhile py_isspace (rev y) @ dropWhile py_isspace (rev y)" by simp
  then have "y = rev (dropWhile py_isspace (rev y)) @ rev (takeWhile py_isspace (rev y))"
    by (metis rev_append rev_rev_ident)
  then show ?thesis unfolding py_rstrip_def by (metis prefixI)
qed

lemma py_lstrip_rstrip: "y = [] \<or> \<not> py_isspace (hd y) \<Longrightarrow> py_lstrip (py_rstrip y) = py_rstrip y"
proof (cases "py_rstrip y = []")
  case True
  then show ?thesis by (simp add: py_lstrip_def)
next
  case False
  assume a: "y = [] \<or> \<not> py_isspace (hd y)"
  from py_rstrip_prefix [of y] obtain zs where "y = py_rstrip y @ zs"
    by (auto simp: prefix_def)
  with False have "hd (py_rstrip y) = hd y"
    by (metis hd_append2)
  moreover from False have "y \<noteq> []" by (auto simp: py_rstrip_def)
  ultimately show ?thesis using a False
    unfolding py_lstrip_def by (simp add: dropWhile_eq_self_iff)
qed

lemma py_rstrip_idem: "py_rstrip (py_rstrip y) = py_rstrip y"
  by (simp add: py_rstrip_def)

lemma py_strip_idem: "py_strip (py_strip x) = py_strip x"
proof -
  let ?y = "py_lstrip x"
  have "?y = [] \<or> \<not> py_isspace (hd ?y)"
    unfolding py_lstrip_def using hd_dropWhile [of py_isspace x] by blast
  then have "py_lstrip (py_rstrip ?y) = py_rstrip ?y" by (rule py_lstrip_rstrip)
  then show ?thesis by (simp add: py_strip_def py_rstrip_idem)
qed

lemma py_strip_dropWhile: "py_strip (dropWhile py_isspace z) = py_strip z"
  by (simp add: py_strip_def py_lstrip_def)

lemma sublist_py_strip: "sublist (py_strip x) x"
proof -
  have "sublist (py_rstrip (py_lstrip x)) (py_lstrip x)"
    using py_rstrip_prefix by (rule prefix_imp_sublist)
  moreover have "sublist (py_lstrip x) x" by (simp add: py_lstrip_def)
  ultimately show ?thesis unfolding py_strip_def by (rule sublist_order.order_trans)
qed

lemma sublist_sub_interest_prefix: "sublist (sub_interest_prefix ps s) s"
proof (induction ps)
  case Nil
  then show ?case by simp
next
  case (Cons p ps)
  have "sublist (dropWhile py_isspace (drop (length p) s)) (drop (length p) s)" by simp
  moreover have "sublist (drop (length p) s) s" by simp
  ultimately have "sublist (dropWhile py_isspace (drop (length p) s)) s"
    by (rule sublist_order.order_trans)
  with Cons show ?case by simp
qed

lemma sub_interest_prefix_none:
  "\<forall>p \<in> set ps. \<not> (\<exists>w rest. py_isspace w \<and> t = p @ w # rest) \<Longrightarrow>
   sub_interest_prefix ps t = t"
proof (induction ps)
  case Nil
  then show ?case by simp
next
  case (Cons p ps)
  have "\<not> (prefix p t \<and> (case drop (length p) t of [] \<Rightarrow> False | c # _ \<Rightarrow> py_isspace c))"
  proof
    assume a: "prefix p t \<and> (case drop (length p) t of [] \<Rightarrow> False | c # _ \<Rightarrow> py_isspace c)"
    then obtain r where r: "t = p @ r" by (auto simp: prefix_def)
    with a obtain c r' where "r = c # r'" "py_isspace c" by (auto split: list.splits)
    with r Cons.prems show False by auto
  qed
  then have "sub_interest_prefix (p # ps) t = sub_interest_prefix ps t"
    by (metis sub_interest_prefix.simps(2))
  moreover have "sub_interest_prefix ps t = t"
    using Cons by simp
  ultimately show ?case by simp
qed

lemma sub_interest_prefix_five:
  assumes "p = ''i like'' \<or> p = ''i love'' \<or> p = ''i enjoy'' \<or> p = ''i am interested in''
      \<or> p = ''interested in''"
    and "py_isspace w"
  shows "sub_interest_prefix interest_prefixes (p @ w # rest) = dropWhile py_isspace rest"
proof -
  have 1: "sub_interest_prefix interest_prefixes (''i like'' @ w # rest) = dropWhile py_isspace rest"
    using assms(2) by (simp add: interest_prefixes_def)
  have 2: "sub_interest_prefix interest_prefixes (''i love'' @ w # rest) = dropWhile py_isspace rest"
    using assms(2) by (simp add: interest_prefixes_def)
  have 3: "sub_interest_prefix interest_prefixes (''i enjoy'' @ w # rest) = dropWhile py_isspace rest"
    using assms(2) by (simp add: interest_prefixes_def)
  have 4: "sub_interest_prefix interest_prefixes (''i am interested in'' @ w # rest)
             = dropWhile py_isspace rest"
    using assms(2) by (simp add: interest_prefixes_def)
  have 5: "sub_interest_prefix interest_prefixes (''interested in'' @ w # rest)
             = dropWhile py_isspace rest"
    using assms(2) by (simp add: interest_prefixes_def)
  from assms(1) show ?thesis
  proof (elim disjE)
    assume "p = ''i like''" then show ?thesis by (simp only: 1)
  next
    assume "p = ''i love''" then show ?thesis by (simp only: 2)
  next
    assume "p = ''i enjoy''" then show ?thesis by (simp only: 3)
  next
    assume "p = ''i am interested in''" then show ?thesis by (simp only: 4)
  next
    assume "p = ''interested in''" then show ?thesis by (simp only: 5)
  qed
qed

lemma re_split_single:
  "CHR '','' \<notin> set x \<Longrightarrow> CHR '';'' \<notin> set x \<Longrightarrow> \<forall>u v. x = u @ v \<longrightarrow> \<not> and_delimiter v \<Longrightarrow>
   re_split_interests cur x = [cur @ x]"
proof (induction x arbitrary: cur)
  case Nil
  then show ?case by simp
next
  case (Cons c cs)
  have n: "\<not> and_delimiter (c # cs)" using Cons.prems(3) by blast
  have "\<forall>u v. cs = u @ v \<longrightarrow> \<not> and_delimiter v"
  proof (intro allI impI)
    fix u v assume "cs = u @ v"
    then have "c # cs = (c # u) @ v" by simp
    with Cons.prems(3) show "\<not> and_delimiter v" by blast
  qed
  with Cons n show ?case by auto
qed

lemma no_and_suffixes:
  assumes "\<not> (\<exists>w1 w2. py_isspace w1 \<and> py_isspace w2 \<and> py_in (w1 # ''and'' @ [w2]) x)"
  shows "\<forall>u v. x = u @ v \<longrightarrow> \<not> and_delimiter v"
proof (intro allI impI notI)
  fix u v assume x: "x = u @ v" and "and_delimiter v"
  then obtain w1 w2 rest where w: "py_isspace w1" "py_isspace w2" and v: "v = w1 # ''and'' @ w2 # rest"
    unfolding and_delimiter_iff by blast
  have "x = u @ (w1 # ''and'' @ [w2]) @ rest" using x v by simp
  then have "sublist (w1 # ''and'' @ [w2]) x" unfolding sublist_def by blast
  with w assms show False unfolding py_in_sublist by blast
qed

lemma suffixes_no_and:
  assumes "\<forall>u v. x = u @ v \<longrightarrow> \<not> and_delimiter v"
  shows "\<not> (\<exists>w1 w2. py_isspace w1 \<and> py_isspace w2 \<and> py_in (w1 # ''and'' @ [w2]) x)"
proof
  assume "\<exists>w1 w2. py_isspace w1 \<and> py_isspace w2 \<and> py_in (w1 # ''and'' @ [w2]) x"
  then obtain w1 w2 where w: "py_isspace w1" "py_isspace w2"
    and "sublist (w1 # ''and'' @ [w2]) x" unfolding py_in_sublist by blast
  then obtain u r where x: "x = u @ (w1 # ''and'' @ [w2]) @ r" unfolding sublist_def by blast
  have "and_delimiter (w1 # ''and'' @ w2 # r)"
    using w unfolding and_delimiter_iff by blast
  moreover have "x = u @ (w1 # ''and'' @ w2 # r)" using x by simp
  ultimately show False using assms by blast
qed

lemma re_split_no_and:
  assumes "t \<in> set (re_split_interests cur s)"
    and "\<forall>a b. cur = a @ b \<longrightarrow> b \<noteq> [] \<longrightarrow> \<not> and_delimiter (b @ s)"
  shows "\<forall>a b. t = a @ b \<longrightarrow> \<not> and_delimiter b"
  using assms
proof (induction cur s rule: re_split_interests.induct)
  case (1 cur)
  then have t: "t = cur" by simp
  show ?case
  proof (intro allI impI)
    fix a b assume "t = a @ b"
    with t 1(2) have "b \<noteq> [] \<longrightarrow> \<not> and_delimiter b" by force
    moreover have "\<not> and_delimiter []" by (simp add: and_delimiter_def)
    ultimately show "\<not> and_delimiter b" by blast
  qed
next
  case (2 cur c cs)
  have cur_ok: "\<forall>a b. cur = a @ b \<longrightarrow> \<not> and_delimiter b"
  proof (intro allI impI)
    fix a b assume c: "cur = a @ b"
    show "\<not> and_delimiter b"
    proof (cases "b = []")
      case True
      then show ?thesis by (simp add: and_delimiter_def)
    next
      case False
      with c 2(5) have "\<not> and_delimiter (b @ c # cs)" by blast
      then show ?thesis using and_delimiter_append by blast
    qed
  qed
  have empty_ok: "\<forall>a b. [] = a @ b \<longrightarrow> b \<noteq> [] \<longrightarrow> \<not> and_delimiter (b @ z)" for z by simp
  show ?case
  proof (cases "c = CHR '','' \<or> c = CHR '';''")
    case True
    with 2(4) have "t = cur \<or> t \<in> set (re_split_interests [] cs)" by auto
    then show ?thesis using cur_ok 2(1) [OF True _ empty_ok] by blast
  next
    case nd: False
    show ?thesis
    proof (cases "and_delimiter (c # cs)")
      case True
      with nd 2(4) have "t = cur \<or> t \<in> set (re_split_interests [] (drop 4 cs))" by auto
      then show ?thesis using cur_ok 2(2) [OF nd True _ empty_ok] by blast
    next
      case False
      with nd 2(4) have m: "t \<in> set (re_split_interests (cur @ [c]) cs)" by auto
      have "\<forall>a b. cur @ [c] = a @ b \<longrightarrow> b \<noteq> [] \<longrightarrow> \<not> and_delimiter (b @ cs)"
      proof (intro allI impI)
        fix a b assume e: "cur @ [c] = a @ b" and ne: "b \<noteq> []"
        then obtain b' where b: "b = b' @ [c]" and c': "cur = a @ b'"
          by (metis append_butlast_last_id butlast_append butlast_snoc last_appendR last_snoc)
        show "\<not> and_delimiter (b @ cs)"
        proof (cases "b' = []")
          case True
          with b False show ?thesis by simp
        next
          case False
          with c' 2(5) have "\<not> and_delimiter (b' @ c # cs)" by blast
          with b show ?thesis by simp
        qed
      qed
      from 2(3) [OF nd False m this] show ?thesis .
    qed
  qed
qed

lemma process_str_unfold:
  "process_interests (InterestsStr s) =
     take 15 (filter (\<lambda>t. 1 < length t)
       (map (\<lambda>i. py_strip (sub_interest_prefix interest_prefixes (py_lower i)))
         (filter (\<lambda>x. x \<noteq> []) (map py_strip (re_split_interests [] (py_lower s))))))"
proof -
  have m: "map py_strip (filter (\<lambda>i. py_strip i \<noteq> []) ys) = filter (\<lambda>x. x \<noteq> []) (map py_strip ys)"
    for ys by (simp add: filter_map o_def)
  show ?thesis by (simp only: process_interests.simps clean_interests_text m)
qed

lemma take_append_take: "take n (take n X @ take n Y) = take n (X @ Y)"
  by (cases "n \<le> length X") (simp_all add: min_def)

lemma process_str_split:
  assumes "re_split_interests [] (py_lower s)
             = re_split_interests [] (py_lower a) @ re_split_interests [] (py_lower b)"
  shows "process_interests (InterestsStr s)
           = take 15 (process_interests (InterestsStr a) @ process_interests (InterestsStr b))"
  unfolding process_str_unfold assms by (simp only: map_append filter_append take_append_take)

lemma split_at_comma_or_semicolon:
  assumes "d = CHR '','' \<or> d = CHR '';''"
  shows "process_interests (InterestsStr (a @ d # b))
           = take 15 (process_interests (InterestsStr a) @ process_interests (InterestsStr b))"
proof (rule process_str_split)
  have "lower_char d = d" using assms lower_char_delims by auto
  then have "py_lower (a @ d # b) = py_lower a @ d # py_lower b"
    by (simp add: py_lower_def)
  then show "re_split_interests [] (py_lower (a @ d # b))
             = re_split_interests [] (py_lower a) @ re_split_interests [] (py_lower b)"
    using re_split_at_delim [OF assms] by simp
qed

lemma split_at_and:
  assumes "py_isspace w1" "py_isspace w2" "py_lower m = ''and''"
    and "\<not> (\<exists>w0 z. py_isspace w0 \<and> py_lower a = z @ w0 # ''and'')"
  shows "process_interests (InterestsStr (a @ w1 # m @ w2 # b))
           = take 15 (process_interests (InterestsStr a) @ process_interests (InterestsStr b))"
proof (rule process_str_split)
  have "py_lower (a @ w1 # m @ w2 # b) = py_lower a @ w1 # ''and'' @ w2 # py_lower b"
    using assms(1-3) by (simp add: py_lower_append lower_char_space) (simp add: py_lower_def lower_char_space)
  moreover have "\<not> ends_with_and (py_lower a)"
    using assms(4) by (simp add: ends_with_and_def)
  ultimately show "re_split_interests [] (py_lower (a @ w1 # m @ w2 # b))
             = re_split_interests [] (py_lower a) @ re_split_interests [] (py_lower b)"
    using re_split_at_and [OF assms(1,2)] by simp
qed

lemma set_py_lower_comma: "CHR '','' \<notin> set s \<Longrightarrow> CHR '','' \<notin> set (py_lower s)"
proof
  assume n: "CHR '','' \<notin> set s" and "CHR '','' \<in> set (py_lower s)"
  then obtain c where "c \<in> set s" "lower_char c = CHR '',''"
    unfolding py_lower_def by auto
  with n show False by (simp add: lower_char_eq_comma)
qed

lemma set_py_lower_semicolon: "CHR '';'' \<notin> set s \<Longrightarrow> CHR '';'' \<notin> set (py_lower s)"
proof
  assume n: "CHR '';'' \<notin> set s" and "CHR '';'' \<in> set (py_lower s)"
  then obtain c where "c \<in> set s" "lower_char c = CHR '';''"
    unfolding py_lower_def by auto
  with n show False by (simp add: lower_char_eq_semicolon)
qed

lemma py_lower_py_strip_lower: "py_lower (py_strip (py_lower s)) = py_strip (py_lower s)"
proof -
  have "\<forall>c \<in> set (py_strip (py_lower s)). \<not> py_isupper c"
    using set_py_strip py_lower_no_upper by blast
  then show ?thesis by (rule py_lower_fixed)
qed

lemma single_piece:
  assumes "CHR '','' \<notin> set s" "CHR '';'' \<notin> set s"
    and "\<not> (\<exists>w1 w2. py_isspace w1 \<and> py_isspace w2 \<and> py_in (w1 # ''and'' @ [w2]) (py_lower s))"
  shows "process_interests (InterestsStr s) =
     take 15 (filter (\<lambda>t. 1 < length t)
       (map (\<lambda>i. py_strip (sub_interest_prefix interest_prefixes i))
         (filter (\<lambda>x. x \<noteq> []) [py_strip (py_lower s)])))"
proof -
  have "re_split_interests [] (py_lower s) = [[] @ py_lower s]"
    using set_py_lower_comma [OF assms(1)] set_py_lower_semicolon [OF assms(2)]
      no_and_suffixes [OF assms(3)]
    by (rule re_split_single)
  then show ?thesis
    unfolding process_str_unfold by (simp add: py_lower_py_strip_lower)
qed

lemma single_no_prefix:
  assumes "CHR '','' \<notin> set s" "CHR '';'' \<notin> set s"
    and "\<not> (\<exists>w1 w2. py_isspace w1 \<and> py_isspace w2 \<and> py_in (w1 # ''and'' @ [w2]) (py_lower s))"
    and "\<forall>p \<in> set [''i like'', ''i love'', ''i enjoy'', ''i am interested in'', ''interested in''].
           \<not> (\<exists>w rest. py_isspace w \<and> py_strip (py_lower s) = p @ w # rest)"
  shows "process_interests (InterestsStr s) =
           (if 1 < length (py_strip (py_lower s)) then [py_strip (py_lower s)] else [])"
proof -
  have "sub_interest_prefix interest_prefixes (py_strip (py_lower s)) = py_strip (py_lower s)"
    using assms(4) unfolding interest_prefixes_def by (rule sub_interest_prefix_none)
  then show ?thesis
    unfolding single_piece [OF assms(1-3)] by (simp add: py_strip_idem)
qed

lemma single_with_prefix:
  assumes "CHR '','' \<notin> set s" "CHR '';'' \<notin> set s"
    and "\<not> (\<exists>w1 w2. py_isspace w1 \<and> py_isspace w2 \<and> py_in (w1 # ''and'' @ [w2]) (py_lower s))"
    and "p = ''i like'' \<or> p = ''i love'' \<or> p = ''i enjoy'' \<or> p = ''i am interested in''
      \<or> p = ''interested in''"
    and "py_isspace w" and "py_strip (py_lower s) = p @ w # rest"
  shows "process_interests (InterestsStr s) =
           (if 1 < length (py_strip rest) then [py_strip rest] else [])"
proof -
  have "sub_interest_prefix interest_prefixes (py_strip (py_lower s)) = dropWhile py_isspace rest"
    unfolding assms(6) using assms(4,5) by (rule sub_interest_prefix_five)
  moreover have "py_strip (py_lower s) \<noteq> []" using assms(6) by simp
  ultimately show ?thesis
    unfolding single_piece [OF assms(1-3)] by (simp add: py_strip_dropWhile)
qed

lemma entries_no_and:
  assumes "t \<in> set (process_interests (InterestsStr s))"
  shows "\<not> (\<exists>w1 w2. py_isspace w1 \<and> py_isspace w2 \<and> py_in (w1 # ''and'' @ [w2]) t)"
proof -
  from assms have "t \<in> set (clean_interests False
       (map py_strip (filter (\<lambda>i. py_strip i \<noteq> []) (re_split_interests [] (py_lower s)))))"
    using in_set_takeD by fastforce
  then obtain r where r: "r \<in> set (re_split_interests [] (py_lower s))"
    and t: "t = py_strip (sub_interest_prefix interest_prefixes (py_lower (py_strip r)))"
    by (auto simp: clean_interests_text)
  have rs: "set r \<subseteq> set (py_lower s) - {CHR '','', CHR '';''}"
    using re_split_chars [OF r] by simp
  have "\<forall>c \<in> set (py_strip r). \<not> py_isupper c"
    using rs set_py_strip py_lower_no_upper by blast
  then have l: "py_lower (py_strip r) = py_strip r" by (rule py_lower_fixed)
  have "sublist t (sub_interest_prefix interest_prefixes (py_strip r))"
    unfolding t l by (rule sublist_py_strip)
  also have "sublist \<dots> (py_strip r)" by (rule sublist_sub_interest_prefix)
  also have "sublist \<dots> r" by (rule sublist_py_strip)
  finally have tr: "sublist t r" .
  have "\<forall>a b. r = a @ b \<longrightarrow> \<not> and_delimiter b"
    using r by (rule re_split_no_and) simp
  then have n: "\<not> (\<exists>w1 w2. py_isspace w1 \<and> py_isspace w2 \<and> py_in (w1 # ''and'' @ [w2]) r)"
    by (rule suffixes_no_and)
  show ?thesis
  proof
    assume "\<exists>w1 w2. py_isspace w1 \<and> py_isspace w2 \<and> py_in (w1 # ''and'' @ [w2]) t"
    then obtain w1 w2 where w: "py_isspace w1" "py_isspace w2"
      and "sublist (w1 # ''and'' @ [w2]) t" unfolding py_in_sublist by blast
    with tr have "sublist (w1 # ''and'' @ [w2]) r" by (meson sublist_order.order_trans)
    with w n show False unfolding py_in_sublist by blast
  qed
qed

text \<open>
  Claim C5. Interests given as a list: each entry is trimmed, its case is kept, entries
  that are empty after trimming are left out. Interests given as one string: the string is
  lowercased and split at commas, semicolons and the word \<open>and\<close> between whitespace; each
  piece is trimmed, a leading conversational prefix is removed, and pieces of a single
  character are dropped. So every entry is lowercase, longer than one character, free of
  commas and semicolons and free of the word \<open>and\<close> between whitespace; a string
  splits at a comma, at a semicolon, and at the word \<open>and\<close> (in any case) between two
  whitespace characters; a string without any of these separators gives one entry, its
  lowercased and trimmed text, from which each of the five prefixes \<open>i like\<close>,
  \<open>i love\<close>, \<open>i enjoy\<close>, \<open>i am interested in\<close>, \<open>interested in\<close>, when
  followed by whitespace, is removed, and nothing else. In both modes the result is cut to
  its first 15 entries.
\<close>

theorem process_interests_normal_form:
  "process_interests (InterestsList xs) = take 15 (filter (\<lambda>x. x \<noteq> []) (map py_strip xs))
   \<and> process_interests (InterestsStr s) =
       take 15 (filter (\<lambda>t. 1 < length t)
         (map (\<lambda>i. py_strip (sub_interest_prefix interest_prefixes (py_lower i)))
           (filter (\<lambda>x. x \<noteq> []) (map py_strip (re_split_interests [] (py_lower s))))))
   \<and> (\<forall>t \<in> set (process_interests (InterestsStr s)).
         1 < length t \<and> py_lower t = t \<and> CHR '','' \<notin> set t \<and> CHR '';'' \<notin> set t
         \<and> \<not> (\<exists>w1 w2. py_isspace w1 \<and> py_isspace w2 \<and> py_in (w1 # ''and'' @ [w2]) t))
   \<and> length (process_interests inp) \<le> 15
   \<and> (d = CHR '','' \<or> d = CHR '';'' \<longrightarrow>
        process_interests (InterestsStr (a @ d # b))
          = take 15 (process_interests (InterestsStr a) @ process_interests (InterestsStr b)))
   \<and> (py_isspace v1 \<and> py_isspace v2 \<and> py_lower m = ''and''
        \<and> \<not> (\<exists>w0 z. py_isspace w0 \<and> py_lower a = z @ w0 # ''and'') \<longrightarrow>
        process_interests (InterestsStr (a @ v1 # m @ v2 # b))
          = take 15 (process_interests (InterestsStr a) @ process_interests (InterestsStr b)))
   \<and> (CHR '','' \<notin> set u \<and> CHR '';'' \<notin> set u
        \<and> \<not> (\<exists>w1 w2. py_isspace w1 \<and> py_isspace w2 \<and> py_in (w1 # ''and'' @ [w2]) (py_lower u))
        \<and> (p = ''i like'' \<or> p = ''i love'' \<or> p = ''i enjoy'' \<or> p = ''i am interested in''
             \<or> p = ''interested in'')
        \<and> py_isspace w \<and> py_strip (py_lower u) = p @ w # rest \<longrightarrow>
        process_interests (InterestsStr u)
          = (if 1 < length (py_strip rest) then [py_strip rest] else []))
   \<and> (CHR '','' \<notin> set u \<and> CHR '';'' \<notin> set u
        \<and> \<not> (\<exists>w1 w2. py_isspace w1 \<and> py_isspace w2 \<and> py_in (w1 # ''and'' @ [w2]) (py_lower u))
        \<and> (\<forall>q \<in> set [''i like'', ''i love'', ''i enjoy'', ''i am interested in'', ''interested in''].
               \<not> (\<exists>w rest. py_isspace w \<and> py_strip (py_lower u) = q @ w # rest)) \<longrightarrow>
        process_interests (InterestsStr u)
          = (if 1 < length (py_strip (py_lower u)) then [py_strip (py_lower u)] else []))"
proof -
  have m: "map py_strip (filter (\<lambda>i. py_strip i \<noteq> []) ys) = filter (\<lambda>x. x \<noteq> []) (map py_strip ys)"
    for ys by (simp add: filter_map o_def)
  have c1: "process_interests (InterestsList xs) = take 15 (filter (\<lambda>x. x \<noteq> []) (map py_strip xs))"
    by (simp only: process_interests.simps clean_interests_list m)
  note c2 = process_str_unfold [of s]
  have c3: "\<forall>t \<in> set (process_interests (InterestsStr s)).
         1 < length t \<and> py_lower t = t \<and> CHR '','' \<notin> set t \<and> CHR '';'' \<notin> set t
         \<and> \<not> (\<exists>w1 w2. py_isspace w1 \<and> py_isspace w2 \<and> py_in (w1 # ''and'' @ [w2]) t)"
  proof
    fix t assume t: "t \<in> set (process_interests (InterestsStr s))"
    from text_tokens [OF t] entries_no_and [OF t]
    show "1 < length t \<and> py_lower t = t \<and> CHR '','' \<notin> set t \<and> CHR '';'' \<notin> set t
         \<and> \<not> (\<exists>w1 w2. py_isspace w1 \<and> py_isspace w2 \<and> py_in (w1 # ''and'' @ [w2]) t)"
      by (intro conjI) (elim conjE, assumption)+
  qed
  have c4: "length (process_interests inp) \<le> 15"
    by (cases inp) simp_all
  have c5: "d = CHR '','' \<or> d = CHR '';'' \<longrightarrow>
        process_interests (InterestsStr (a @ d # b))
          = take 15 (process_interests (InterestsStr a) @ process_interests (InterestsStr b))"
    using split_at_comma_or_semicolon by (intro impI)
  have c6: "py_isspace v1 \<and> py_isspace v2 \<and> py_lower m = ''and''
        \<and> \<not> (\<exists>w0 z. py_isspace w0 \<and> py_lower a = z @ w0 # ''and'') \<longrightarrow>
        process_interests (InterestsStr (a @ v1 # m @ v2 # b))
          = take 15 (process_interests (InterestsStr a) @ process_interests (InterestsStr b))"
  proof
    assume h: "py_isspace v1 \<and> py_isspace v2 \<and> py_lower m = ''and''
        \<and> \<not> (\<exists>w0 z. py_isspace w0 \<and> py_lower a = z @ w0 # ''and'')"
    show "process_interests (InterestsStr (a @ v1 # m @ v2 # b))
          = take 15 (process_interests (InterestsStr a) @ process_interests (InterestsStr b))"
      by (rule split_at_and [OF h [THEN conjunct1] h [THEN conjunct2, THEN conjunct1]
            h [THEN conjunct2, THEN conjunct2, THEN conjunct1]
            h [THEN conjunct2, THEN conjunct2, THEN conjunct2]])
  qed
  have c7: "CHR '','' \<notin> set u \<and> CHR '';'' \<notin> set u
        \<and> \<not> (\<exists>w1 w2. py_isspace w1 \<and> py_isspace w2 \<and> py_in (w1 # ''and'' @ [w2]) (py_lower u))
        \<and> (p = ''i like'' \<or> p = ''i love'' \<or> p = ''i enjoy'' \<or> p = ''i am interested in''
             \<or> p = ''interested in'')
        \<and> py_isspace w \<and> py_strip (py_lower u) = p @ w # rest \<longrightarrow>
        process_interests (InterestsStr u)
          = (if 1 < length (py_strip rest) then [py_strip rest] else [])"
  proof
    assume h: "CHR '','' \<notin> set u \<and> CHR '';'' \<notin> set u
        \<and> \<not> (\<exists>w1 w2. py_isspace w1 \<and> py_isspace w2 \<and> py_in (w1 # ''and'' @ [w2]) (py_lower u))
        \<and> (p = ''i like'' \<or> p = ''i love'' \<or> p = ''i enjoy'' \<or> p = ''i am interested in''
             \<or> p = ''interested in'')
        \<and> py_isspace w \<and> py_strip (py_lower u) = p @ w # rest"
    show "process_interests (InterestsStr u)
          = (if 1 < length (py_strip rest) then [py_strip rest] else [])"
      by (rule single_with_prefix [OF h [THEN conjunct1] h [THEN conjunct2, THEN conjunct1]
            h [THEN conjunct2, THEN conjunct2, THEN conjunct1]
            h [THEN conjunct2, THEN conjunct2, THEN conjunct2, THEN conjunct1]
            h [THEN conjunct2, THEN conjunct2, THEN conjunct2, THEN conjunct2, THEN conjunct1]
            h [THEN conjunct2, THEN conjunct2, THEN conjunct2, THEN conjunct2, THEN conjunct2]])
  qed
  have c8: "CHR '','' \<notin> set u \<and> CHR '';'' \<notin> set u
        \<and> \<not> (\<exists>w1 w2. py_isspace w1 \<and> py_isspace w2 \<and> py_in (w1 # ''and'' @ [w2]) (py_lower u))
        \<and> (\<forall>q \<in> set [''i like'', ''i love'', ''i enjoy'', ''i am interested in'', ''interested in''].
               \<not> (\<exists>w rest. py_isspace w \<and> py_strip (py_lower u) = q @ w # rest)) \<longrightarrow>
        process_interests (InterestsStr u)
          = (if 1 < length (py_strip (py_lower u)) then [py_strip (py_lower u)] else [])"
  proof
    assume h: "CHR '','' \<notin> set u \<and> CHR '';'' \<notin> set u
        \<and> \<not> (\<exists>w1 w2. py_isspace w1 \<and> py_isspace w2 \<and> py_in (w1 # ''and'' @ [w2]) (py_lower u))
        \<and> (\<forall>q \<in> set [''i like'', ''i love'', ''i enjoy'', ''i am interested in'', ''interested in''].
               \<not> (\<exists>w rest. py_isspace w \<and> py_strip (py_lower u) = q @ w # rest))"
    show "process_interests (InterestsStr u)
          = (if 1 < length (py_strip (py_lower u)) then [py_strip (py_lower u)] else [])"
      by (rule single_no_prefix [OF h [THEN conjunct1] h [THEN conjunct2, THEN conjunct1]
            h [THEN conjunct2, THEN conjunct2, THEN conjunct1]
            h [THEN conjunct2, THEN conjunct2, THEN conjunct2]])
  qed
  show ?thesis using c1 c2 c3 c4 c5 c6 c7 c8 by (intro conjI)
qed

text \<open>A list with mixed case, and strings that split at a comma, at the word
  \<open>and\<close>, that carry a prefix, and that carry none.\<close>

theorem process_interests_normal_form_witness:
  "process_interests (InterestsList [''AI/ML'', ''  Web Dev '', ''  '']) = [''AI/ML'', ''Web Dev'']
   \<and> process_interests (InterestsStr ''AI/ML, I like Music;Art and Design, x'')
        = [''ai/ml'', ''music'', ''art'', ''design'']
   \<and> process_interests (InterestsStr ''Music, Art'')
        = take 15 (process_interests (InterestsStr ''Music'')
                    @ process_interests (InterestsStr '' Art''))
   \<and> process_interests (InterestsStr ''Music, Art'') = [''music'', ''art'']
   \<and> process_interests (InterestsStr ''rock AND roll'')
        = take 15 (process_interests (InterestsStr ''rock'')
                    @ process_interests (InterestsStr ''roll''))
   \<and> process_interests (InterestsStr ''rock AND roll'') = [''rock'', ''roll'']
   \<and> process_interests (InterestsStr ''I love Jazz'')
        = (if 1 < length (py_strip ''jazz'') then [py_strip ''jazz''] else [])
   \<and> process_interests (InterestsStr ''I love Jazz'') = [''jazz'']
   \<and> process_interests (InterestsStr '' Big Band Jazz '')
        = (if 1 < length (py_strip (py_lower '' Big Band Jazz ''))
           then [py_strip (py_lower '' Big Band Jazz '')] else [])
   \<and> process_interests (InterestsStr '' Big Band Jazz '') = [''big band jazz'']"
proof -
  have a: "process_interests (InterestsList [''AI/ML'', ''  Web Dev '', ''  ''])
             = [''AI/ML'', ''Web Dev'']"
    by code_simp
  have b: "process_interests (InterestsStr ''AI/ML, I like Music;Art and Design, x'')
        = [''ai/ml'', ''music'', ''art'', ''design'']"
    by code_simp
  have sp: "py_isspace CHR '' ''" by code_simp
  have c: "process_interests (InterestsStr (''Music'' @ CHR '','' # '' Art''))
        = take 15 (process_interests (InterestsStr ''Music'')
                    @ process_interests (InterestsStr '' Art''))"
    by (rule process_interests_normal_form [THEN conjunct2, THEN conjunct2, THEN conjunct2,
          THEN conjunct2, THEN conjunct1, THEN mp]) simp
  have c': "process_interests (InterestsStr ''Music, Art'') = [''music'', ''art'']"
    by code_simp
  have l1: "py_lower ''AND'' = ''and''" by code_simp
  have l2: "py_lower ''rock'' = ''rock''" by code_simp
  have n1: "\<not> (\<exists>w0 z. py_isspace w0 \<and> py_lower ''rock'' = z @ w0 # ''and'')"
    unfolding l2 by (auto simp: Cons_eq_append_conv)
  have d: "process_interests (InterestsStr (''rock'' @ CHR '' '' # ''AND'' @ CHR '' '' # ''roll''))
        = take 15 (process_interests (InterestsStr ''rock'')
                    @ process_interests (InterestsStr ''roll''))"
    using sp l1 n1
    by (intro process_interests_normal_form [THEN conjunct2, THEN conjunct2, THEN conjunct2,
          THEN conjunct2, THEN conjunct2, THEN conjunct1, THEN mp] conjI)
  have d': "process_interests (InterestsStr ''rock AND roll'') = [''rock'', ''roll'']"
    by code_simp
  have l3: "py_lower ''I love Jazz'' = ''i love jazz''" by code_simp
  have n2: "\<not> (\<exists>w1 w2. py_isspace w1 \<and> py_isspace w2
              \<and> py_in (w1 # ''and'' @ [w2]) (py_lower ''I love Jazz''))"
    unfolding l3 by simp
  have s3: "py_strip (py_lower ''I love Jazz'') = ''i love'' @ CHR '' '' # ''jazz''" by code_simp
  have e: "process_interests (InterestsStr ''I love Jazz'')
        = (if 1 < length (py_strip ''jazz'') then [py_strip ''jazz''] else [])"
    using n2 sp s3
    by (intro process_interests_normal_form [where p = "''i love''", THEN conjunct2, THEN conjunct2,
          THEN conjunct2, THEN conjunct2, THEN conjunct2, THEN conjunct2, THEN conjunct1, THEN mp]
          conjI) simp_all
  have e': "process_interests (InterestsStr ''I love Jazz'') = [''jazz'']"
    by code_simp
  have nb: "\<not> py_isspace CHR ''b''" by code_simp
  have l4: "py_lower '' Big Band Jazz '' = '' big band jazz ''" by code_simp
  have s4: "py_strip (py_lower '' Big Band Jazz '') = ''big band jazz''" by code_simp
  have n3: "\<not> (\<exists>w1 w2. py_isspace w1 \<and> py_isspace w2
              \<and> py_in (w1 # ''and'' @ [w2]) (py_lower '' Big Band Jazz ''))"
    unfolding l4 using nb by simp
  have n4: "\<forall>q \<in> set [''i like'', ''i love'', ''i enjoy'', ''i am interested in'', ''interested in''].
               \<not> (\<exists>w rest. py_isspace w \<and> py_strip (py_lower '' Big Band Jazz '') = q @ w # rest)"
    unfolding s4 by simp
  have f: "process_interests (InterestsStr '' Big Band Jazz '')
        = (if 1 < length (py_strip (py_lower '' Big Band Jazz ''))
           then [py_strip (py_lower '' Big Band Jazz '')] else [])"
    using n3 n4
    by (intro process_interests_normal_form [THEN conjunct2, THEN conjunct2,
          THEN conjunct2, THEN conjunct2, THEN conjunct2, THEN conjunct2, THEN conjunct2, THEN mp]
          conjI) simp_all
  have f': "process_interests (InterestsStr '' Big Band Jazz '') = [''big band jazz'']"
    by code_simp
  from c have c0: "process_interests (InterestsStr ''Music, Art'')
        = take 15 (process_interests (InterestsStr ''Music'')
                    @ process_interests (InterestsStr '' Art''))" by simp
  from d have d0: "process_interests (InterestsStr ''rock AND roll'')
        = take 15 (process_interests (InterestsStr ''rock'')
                    @ process_interests (InterestsStr ''roll''))" by simp
  from a b c0 c' d0 d' e e' f f' show ?thesis by (intro conjI)
qed

section \<open>Normalizing the sample input twice\<close>

text \<open>
  Claim C8. Normalizing the sample input of \<open>get_sample_inputs\<close>, reading the result back
  as a raw input (without the derived categories) and normalizing again gives the same
  profile.
\<close>

theorem sample_input_idempotent:
  "process_user_input (raw_of_profile (process_user_input get_sample_inputs))
     = process_user_input get_sample_inputs"
  by code_simp

theorem sample_input_idempotent_witness:
  "preferred_categories (process_user_input get_sample_inputs)
      = [''Natural Sciences'', ''Computer Science'', ''Business'']
   \<and> preferred_categories
       (process_user_input (raw_of_profile (process_user_input get_sample_inputs)))
      = [''Natural Sciences'', ''Computer Science'', ''Business'']"
proof -
  have v: "preferred_categories (process_user_input get_sample_inputs)
      = [''Natural Sciences'', ''Computer Science'', ''Business'']"
    by code_simp
  then show ?thesis unfolding sample_input_idempotent by simp
qed

section \<open>Categories derived from the interests\<close>

lemma set_category_loop:
  "set (category_loop t tbl cats) =
     set cats \<union> {C. \<exists>ks. (C, ks) \<in> set tbl \<and> (\<exists>k \<in> set ks. py_in k t)}"
proof (induction tbl arbitrary: cats)
  case Nil
  then show ?case by simp
next
  case (Cons e tbl)
  obtain C ks where e: "e = (C, ks)" by (cases e)
  show ?case
    unfolding e by (auto simp: Cons list_ex_iff)
qed

lemma set_derive_loop:
  "set (derive_loop ts cats) =
     set cats \<union> {C. \<exists>t \<in> set ts. \<exists>ks. (C, ks) \<in> set category_keywords
                                      \<and> (\<exists>k \<in> set ks. py_in k t)}"
proof (induction ts arbitrary: cats)
  case Nil
  then show ?case by simp
next
  case (Cons t ts)
  show ?case
    by (simp add: Cons set_category_loop) blast
qed

lemma category_table_lowercase:
  "length category_keywords = 11
   \<and> list_all (\<lambda>e. list_all (\<lambda>k. py_lower k = k) (snd e)) category_keywords"
  by code_simp

text \<open>
  Claim C10. A category is derived exactly when one of its keywords is a substring,
  compared case-sensitively, of a normalized interest; the eleven keyword tables hold
  lowercase keywords only. So interests given as a list, whose case is kept, derive no
  category when no keyword occurs in them as written (as \<open>Computer Science\<close>, which has
  the keywords only capitalized), while the same interest given in a comma-separated
  string is lowercased by the normalization and derives its categories.
\<close>

theorem derive_categories_case_sensitive:
  "(C \<in> set (derive_categories_from_interests inp) \<longleftrightarrow>
      (\<exists>t \<in> set (process_interests inp). \<exists>ks. (C, ks) \<in> set category_keywords
          \<and> (\<exists>k \<in> set ks. py_in k t)))
   \<and> length category_keywords = 11
   \<and> (\<forall>e \<in> set category_keywords. \<forall>k \<in> set (snd e). py_lower k = k)
   \<and> ((\<forall>x \<in> set xs. \<forall>e \<in> set category_keywords. \<forall>k \<in> set (snd e). \<not> py_in k (py_strip x))
        \<longrightarrow> derive_categories_from_interests (InterestsList xs) = [])
   \<and> (\<forall>t \<in> set (process_interests (InterestsStr s)). py_lower t = t)
   \<and> derive_categories_from_interests (InterestsList [''Computer Science'']) = []
   \<and> derive_categories_from_interests (InterestsStr ''Computer Science'')
        = [''Natural Sciences'', ''Computer Science'']"
proof -
  have a: "C \<in> set (derive_categories_from_interests inp) \<longleftrightarrow>
      (\<exists>t \<in> set (process_interests inp). \<exists>ks. (C, ks) \<in> set category_keywords
          \<and> (\<exists>k \<in> set ks. py_in k t))" for C inp
    by (simp add: derive_categories_from_interests_def set_derive_loop)
  have b: "length category_keywords = 11"
    using category_table_lowercase by simp
  have c: "\<forall>e \<in> set category_keywords. \<forall>k \<in> set (snd e). py_lower k = k"
    using category_table_lowercase by (simp add: list_all_iff)
  have d: "(\<forall>x \<in> set xs. \<forall>e \<in> set category_keywords. \<forall>k \<in> set (snd e). \<not> py_in k (py_strip x))
        \<longrightarrow> derive_categories_from_interests (InterestsList xs) = []"
  proof
    assume h: "\<forall>x \<in> set xs. \<forall>e \<in> set category_keywords. \<forall>k \<in> set (snd e). \<not> py_in k (py_strip x)"
    have n: "D \<notin> set (derive_categories_from_interests (InterestsList xs))" for D
    proof
      assume "D \<in> set (derive_categories_from_interests (InterestsList xs))"
      then obtain t ks k where t: "t \<in> set (process_interests (InterestsList xs))"
        and ks: "(D, ks) \<in> set category_keywords" and k: "k \<in> set ks" "py_in k t"
        unfolding a by auto
      from t list_mode_interests obtain x where "x \<in> set xs" "t = py_strip x" by auto
      with h ks k show False by force
    qed
    show "derive_categories_from_interests (InterestsList xs) = []"
    proof (cases "derive_categories_from_interests (InterestsList xs)")
      case Nil
      then show ?thesis .
    next
      case (Cons D ds)
      then have "D \<in> set (derive_categories_from_interests (InterestsList xs))" by simp
      with n show ?thesis by simp
    qed
  qed
  have e: "\<forall>t \<in> set (process_interests (InterestsStr s)). py_lower t = t"
    using text_tokens by blast
  have f: "derive_categories_from_interests (InterestsList [''Computer Science'']) = []"
    by code_simp
  have g: "derive_categories_from_interests (InterestsStr ''Computer Science'')
        = [''Natural Sciences'', ''Computer Science'']"
    by code_simp
  show ?thesis using a b c d e f g by (intro conjI)
qed

theorem derive_categories_case_sensitive_witness:
  "list_all (\<lambda>x. list_all (\<lambda>e. list_all (\<lambda>k. \<not> py_in k (py_strip x)) (snd e))
       category_keywords) [''Computer Science'', ''DATA Analysis'']
   \<and> derive_categories_from_interests (InterestsList [''Computer Science'', ''DATA Analysis'']) = []
   \<and> derive_categories_from_interests (InterestsStr ''Computer Science, DATA Analysis'')
        = [''Natural Sciences'', ''Computer Science'']"
proof -
  have h: "list_all (\<lambda>x. list_all (\<lambda>e. list_all (\<lambda>k. \<not> py_in k (py_strip x)) (snd e))
              category_keywords) [''Computer Science'', ''DATA Analysis'']"
    by code_simp
  then have h': "\<forall>x \<in> set [''Computer Science'', ''DATA Analysis''].
       \<forall>e \<in> set category_keywords. \<forall>k \<in> set (snd e). \<not> py_in k (py_strip x)"
    unfolding list_all_iff .
  have "derive_categories_from_interests (InterestsList [''Computer Science'', ''DATA Analysis'']) = []"
    using derive_categories_case_sensitive [of _ _ "[''Computer Science'', ''DATA Analysis'']",
        THEN conjunct2, THEN conjunct2, THEN conjunct2, THEN conjunct1] h' by (rule mp)
  moreover have "derive_categories_from_interests (InterestsStr ''Computer Science, DATA Analysis'')
        = [''Natural Sciences'', ''Computer Science'']"
    by code_simp
  ultimately show ?thesis using h by (intro conjI)
qed

end
